theory Spec2Isabelle
  imports Complex_Main
begin

section \<open>Bed-occupancy forecasting and decision engine\<close>

text \<open>
  A shallow embedding of the forecasting and decision core of the two routers
  \<^verbatim>\<open>app/routers/predictions.py\<close> (administrator surface) and
  \<^verbatim>\<open>app/routers/public.py\<close> (patient surface).

  Conventions of the embedding.
  \<^item> Python \<^verbatim>\<open>int\<close> is \<^typ>\<open>int\<close>. A finite Python \<^verbatim>\<open>float\<close> is idealised as a
    \<^typ>\<open>real\<close>: binary rounding of float arithmetic, NaN and the infinities are
    outside the model.
  \<^item> A value that may be \<^verbatim>\<open>None\<close> is an \<^typ>\<open>'a option\<close>.
  \<^item> A calendar date is its day ordinal, an \<^typ>\<open>int\<close>; adding
    \<^verbatim>\<open>timedelta(days=o)\<close> adds \<open>o\<close>. The range limits of the calendar are not modelled.
  \<^item> Every operation of the source that can raise returns \<open>py_error + 'a\<close>, with
    \<open>Inl\<close> for the exception.
\<close>

subsection \<open>Python primitives\<close>

datatype py_error =
    ZeroDivisionError
  | IndexError
  | TypeError
  | PrimaryModelError
  | HTTPException nat

text \<open>\<^verbatim>\<open>value or 0\<close>: \<^verbatim>\<open>None\<close> (and the falsy number zero) become \<open>0\<close>.\<close>

definition or_0 :: "real option \<Rightarrow> real" where
  "or_0 v = (case v of None \<Rightarrow> 0 | Some x \<Rightarrow> x)"

text \<open>\<^verbatim>\<open>int(x)\<close> on a number truncates toward zero.\<close>

definition py_int :: "real \<Rightarrow> int" where
  "py_int x = (if 0 \<le> x then \<lfloor>x\<rfloor> else \<lceil>x\<rceil>)"

text \<open>\<^verbatim>\<open>round(x)\<close>: to the nearest integer, a tie going to the even neighbour.\<close>

definition py_round :: "real \<Rightarrow> int" where
  "py_round x =
     (let f = \<lfloor>x\<rfloor>; d = x - of_int f
      in if d < 1 / 2 then f
         else if 1 / 2 < d then f + 1
         else if even f then f else f + 1)"

text \<open>\<^verbatim>\<open>round(x, 1)\<close>: to one decimal place.\<close>

definition py_round1 :: "real \<Rightarrow> real" where
  "py_round1 x = of_int (py_round (x * 10)) / 10"

text \<open>\<^verbatim>\<open>a / b\<close>: true division, raising on a zero divisor.\<close>

definition py_div :: "real \<Rightarrow> real \<Rightarrow> py_error + real" where
  "py_div a b = (if b = 0 then Inl ZeroDivisionError else Inr (a / b))"

text \<open>\<^verbatim>\<open>xs[-1]\<close>: the last element, raising on the empty list.\<close>

definition py_last :: "'a list \<Rightarrow> py_error + 'a" where
  "py_last xs = (case xs of [] \<Rightarrow> Inl IndexError | _ # _ \<Rightarrow> Inr (last xs))"

text \<open>\<^verbatim>\<open>xs[-8:]\<close>: the last eight elements, or all of a shorter list.\<close>

definition last8 :: "'a list \<Rightarrow> 'a list" where
  "last8 xs = drop (length xs - 8) xs"

subsection \<open>Occupancy normaliser\<close>

text \<open>
  \<^verbatim>\<open>predictions._clamp_occupancy(value, total_beds)\<close>:
  \<^verbatim>\<open>
  if total_beds <= 0:
      return max(0.0, float(value or 0))
  return max(0.0, min(float(value or 0), float(total_beds)))
  \<close>
\<close>

definition clamp_occupancy :: "real option \<Rightarrow> int \<Rightarrow> real" where
  "clamp_occupancy v total_beds =
     (if total_beds \<le> 0 then max 0 (or_0 v)
      else max 0 (min (or_0 v) (real_of_int total_beds)))"

text \<open>
  \<^verbatim>\<open>public._clamp_occupancy(occupied_beds, total_beds)\<close>:
  \<^verbatim>\<open>
  if total_beds <= 0:
      return max(0, int(occupied_beds or 0))
  return max(0, min(int(occupied_beds or 0), total_beds))
  \<close>
\<close>

definition clamp_occupancy_public :: "real option \<Rightarrow> int \<Rightarrow> int" where
  "clamp_occupancy_public occupied_beds total_beds =
     (if total_beds \<le> 0 then max 0 (py_int (or_0 occupied_beds))
      else max 0 (min (py_int (or_0 occupied_beds)) total_beds))"

subsection \<open>Utilisation and risk classification\<close>

text \<open>
  \<^verbatim>\<open>public._calculate_utilization(occupied_beds, total_beds)\<close>:
  \<^verbatim>\<open>
  if total_beds <= 0:
      return 0.0
  return round((occupied_beds / total_beds) * 100, 1)
  \<close>
\<close>

definition calculate_utilization :: "int \<Rightarrow> int \<Rightarrow> py_error + real" where
  "calculate_utilization occupied_beds total_beds =
     (if total_beds \<le> 0 then Inr 0
      else case py_div (of_int occupied_beds) (of_int total_beds) of
             Inl e \<Rightarrow> Inl e
           | Inr q \<Rightarrow> Inr (py_round1 (q * 100)))"

text \<open>\<^verbatim>\<open>public._risk_from_utilization(utilization)\<close>.\<close>

definition risk_from_utilization :: "real \<Rightarrow> string" where
  "risk_from_utilization utilization =
     (if 85 \<le> utilization then ''high''
      else if 70 \<le> utilization then ''medium''
      else ''low'')"

text \<open>
  The status of \<^verbatim>\<open>get_hospital_availability\<close> (lines 190 to 196 of the public
  router).
\<close>

definition availability_status :: "real \<Rightarrow> string" where
  "availability_status utilization =
     (if 85 \<le> utilization then ''high''
      else if 70 \<le> utilization then ''moderate''
      else ''available'')"

text \<open>The risk level of \<^verbatim>\<open>compare_hospitals\<close> (lines 341 to 347).\<close>

definition comparison_risk :: "real \<Rightarrow> string" where
  "comparison_risk utilization =
     (if 85 \<le> utilization then ''high''
      else if 70 \<le> utilization then ''medium''
      else ''low'')"

text \<open>
  The status that \<^verbatim>\<open>get_dashboard\<close> derives from the current utilisation (lines
  274 to 280 of the administrator router).
\<close>

definition status_from_utilization :: "real \<Rightarrow> string" where
  "status_from_utilization current_utilization =
     (if 85 \<le> current_utilization then ''red''
      else if 70 \<le> current_utilization then ''yellow''
      else ''green'')"

subsection \<open>Data model\<close>

text \<open>
  A daily record of \<^verbatim>\<open>EHRRecord\<close>: the core reads only the date and the occupied
  beds (a nullable column). A series is held in ascending date order, as the storage
  query \<^verbatim>\<open>order_by(EHRRecord.date)\<close> delivers it.
\<close>

record ehr_record =
  date :: int
  occupied_beds :: "int option"

text \<open>
  A forecast point, the dictionary with the keys \<^verbatim>\<open>date\<close>,
  \<^verbatim>\<open>predicted_occupancy\<close> and, on the administrator surface,
  \<^verbatim>\<open>lower_bound\<close> and \<^verbatim>\<open>upper_bound\<close>.
\<close>

record prediction =
  pred_date :: int
  predicted_occupancy :: real
  lower_bound :: "real option"
  upper_bound :: "real option"

subsection \<open>Trend fallback forecaster\<close>

text \<open>
  The trend of both forecasters, from the normalised series:
  \<^verbatim>\<open>
  recent = normalized[-8:]
  deltas = [recent[i] - recent[i - 1] for i in range(1, len(recent))]
  avg_delta = (sum(deltas) / len(deltas)) if deltas else 0.0
  avg_delta = max(-5.0, min(5.0, avg_delta))
  \<close>
\<close>

definition recent_deltas :: "real list \<Rightarrow> real list" where
  "recent_deltas normalized =
     (let recent = last8 normalized
      in map (\<lambda>i. recent ! i - recent ! (i - 1)) [1..<length recent])"

definition avg_delta :: "real list \<Rightarrow> py_error + real" where
  "avg_delta normalized =
     (let deltas = recent_deltas normalized
      in case (if deltas \<noteq> [] then py_div (sum_list deltas) (real (length deltas))
               else Inr 0) of
           Inl e \<Rightarrow> Inl e
         | Inr a \<Rightarrow> Inr (max (- 5) (min 5 a)))"

text \<open>
  \<^verbatim>\<open>predictions._build_fallback_predictions(ehr_records, total_beds, days)\<close>; the
  loop over \<^verbatim>\<open>range(1, days + 1)\<close> appends one point per offset.
\<close>

definition fallback_point :: "int \<Rightarrow> real \<Rightarrow> real \<Rightarrow> int \<Rightarrow> int \<Rightarrow> prediction" where
  "fallback_point last_day last_occupancy delta total_beds offset =
     (let predicted = clamp_occupancy (Some (last_occupancy + delta * of_int offset)) total_beds;
          lower = clamp_occupancy (Some (predicted - 8)) total_beds;
          upper = clamp_occupancy (Some (predicted + 8)) total_beds
      in \<lparr> pred_date = last_day + offset,
           predicted_occupancy = py_round1 predicted,
           lower_bound = Some (py_round1 lower),
           upper_bound = Some (py_round1 upper) \<rparr>)"

definition build_fallback_predictions ::
    "ehr_record list \<Rightarrow> int \<Rightarrow> int \<Rightarrow> py_error + prediction list" where
  "build_fallback_predictions ehr_records total_beds days =
     (if ehr_records = [] then Inr []
      else
        let normalized =
              map (\<lambda>r. clamp_occupancy (map_option real_of_int (occupied_beds r)) total_beds)
                ehr_records
        in case avg_delta normalized of
             Inl e \<Rightarrow> Inl e
           | Inr delta \<Rightarrow>
               (case py_last ehr_records of
                  Inl e \<Rightarrow> Inl e
                | Inr last_record \<Rightarrow>
                    (case py_last normalized of
                       Inl e \<Rightarrow> Inl e
                     | Inr last_occupancy \<Rightarrow>
                         Inr (map (fallback_point (date last_record) last_occupancy delta
                                     total_beds)
                                [1..days]))))"

text \<open>
  \<^verbatim>\<open>public._build_fallback_forecast(ehr_records, total_beds, days)\<close>: the same trend
  over the integer normalisation, each projection rounded to a whole bed before it is
  clamped, and no bounds.
\<close>

definition fallback_forecast_point :: "int \<Rightarrow> int \<Rightarrow> real \<Rightarrow> int \<Rightarrow> int \<Rightarrow> prediction" where
  "fallback_forecast_point last_day last_occupancy delta total_beds day_offset =
     (let projected =
            clamp_occupancy_public
              (Some (of_int (py_round (of_int last_occupancy + delta * of_int day_offset))))
              total_beds
      in \<lparr> pred_date = last_day + day_offset,
           predicted_occupancy = of_int projected,
           lower_bound = None,
           upper_bound = None \<rparr>)"

definition build_fallback_forecast ::
    "ehr_record list \<Rightarrow> int \<Rightarrow> int \<Rightarrow> py_error + prediction list" where
  "build_fallback_forecast ehr_records total_beds days =
     (if ehr_records = [] then Inr []
      else
        let normalized =
              map (\<lambda>r. clamp_occupancy_public (map_option real_of_int (occupied_beds r))
                          total_beds)
                ehr_records
        in case avg_delta (map real_of_int normalized) of
             Inl e \<Rightarrow> Inl e
           | Inr delta \<Rightarrow>
               (case py_last ehr_records of
                  Inl e \<Rightarrow> Inl e
                | Inr last_record \<Rightarrow>
                    (case py_last normalized of
                       Inl e \<Rightarrow> Inl e
                     | Inr last_occupancy \<Rightarrow>
                         Inr (map (fallback_forecast_point (date last_record) last_occupancy
                                     delta total_beds)
                                [1..days]))))"

subsection \<open>Patient-facing forecast response\<close>

text \<open>
  One \<^verbatim>\<open>DayForecast\<close>; the date string is the ISO form of the date, represented by
  the date itself.
\<close>

record day_forecast =
  df_date :: int
  df_predicted_occupancy :: int
  df_predicted_available :: int
  df_utilization_percentage :: real
  df_risk_level :: string

text \<open>
  \<^verbatim>\<open>public._format_forecast_response(predictions, total_beds)\<close>. The loop state is
  \<^verbatim>\<open>(forecast_days, min_occupancy, best_day)\<close>; \<^verbatim>\<open>min_occupancy\<close> starts as
  \<^verbatim>\<open>float("inf")\<close>, written \<open>None\<close>, below which every occupancy lies.
\<close>

definition below_min :: "int \<Rightarrow> int option \<Rightarrow> bool" where
  "below_min predicted_occ min_occupancy =
     (case min_occupancy of None \<Rightarrow> True | Some m \<Rightarrow> predicted_occ < m)"

fun format_forecast_loop ::
    "int \<Rightarrow> prediction list \<Rightarrow> day_forecast list \<times> int option \<times> int option
       \<Rightarrow> py_error + day_forecast list \<times> int option \<times> int option" where
  "format_forecast_loop total_beds [] acc = Inr acc"
| "format_forecast_loop total_beds (pred # rest) (forecast_days, min_occupancy, best_day) =
     (let predicted_occ = clamp_occupancy_public (Some (predicted_occupancy pred)) total_beds;
          available = max 0 (total_beds - predicted_occ)
      in case calculate_utilization predicted_occ total_beds of
           Inl e \<Rightarrow> Inl e
         | Inr utilization \<Rightarrow>
             (let risk = risk_from_utilization utilization;
                  date_str = pred_date pred;
                  day = \<lparr> df_date = date_str,
                          df_predicted_occupancy = predicted_occ,
                          df_predicted_available = available,
                          df_utilization_percentage = utilization,
                          df_risk_level = risk \<rparr>
              in if below_min predicted_occ min_occupancy
                 then format_forecast_loop total_beds rest
                        (forecast_days @ [day], Some predicted_occ, Some date_str)
                 else format_forecast_loop total_beds rest
                        (forecast_days @ [day], min_occupancy, best_day)))"

definition format_forecast_response ::
    "prediction list \<Rightarrow> int \<Rightarrow> py_error + day_forecast list \<times> int option \<times> int option" where
  "format_forecast_response predictions total_beds =
     (case format_forecast_loop total_beds predictions ([], None, None) of
        Inl e \<Rightarrow> Inl e
      | Inr (forecast_days, min_occupancy, best_day) \<Rightarrow>
          Inr (forecast_days, best_day, min_occupancy))"

subsection \<open>Alerts and dashboard status\<close>

text \<open>
  An alert (\<^verbatim>\<open>AlertItem\<close>, \<^verbatim>\<open>AvailabilityAlert\<close>). The templated message text
  is not modelled.
\<close>

record alert =
  alert_type :: string
  severity :: string
  alert_date :: int

text \<open>
  The alert loop of \<^verbatim>\<open>public.get_hospital_alerts\<close> (lines 443 to 464): one alert
  for a day at or above 85 percent, one for a day at or above 70 percent, none below.
\<close>

fun availability_alerts :: "prediction list \<Rightarrow> int \<Rightarrow> py_error + alert list" where
  "availability_alerts [] total_beds = Inr []"
| "availability_alerts (pred # rest) total_beds =
     (let predicted_occ = clamp_occupancy_public (Some (predicted_occupancy pred)) total_beds
      in case calculate_utilization predicted_occ total_beds of
           Inl e \<Rightarrow> Inl e
         | Inr utilization \<Rightarrow>
             (case availability_alerts rest total_beds of
                Inl e \<Rightarrow> Inl e
              | Inr alerts \<Rightarrow>
                  if 85 \<le> utilization then
                    Inr (\<lparr> alert_type = ''high_occupancy'', severity = ''critical'',
                            alert_date = pred_date pred \<rparr> # alerts)
                  else if 70 \<le> utilization then
                    Inr (\<lparr> alert_type = ''capacity_warning'', severity = ''warning'',
                            alert_date = pred_date pred \<rparr> # alerts)
                  else Inr alerts))"

text \<open>
  The overall status of \<^verbatim>\<open>predictions.get_dashboard\<close> (lines 261 to 280):
  \<^verbatim>\<open>
  if alerts:
      has_red = any(alert.severity == 'red' for alert in alerts)
      has_yellow = any(alert.severity == 'yellow' for alert in alerts)
      if has_red: overall_status = 'red'
      elif has_yellow: overall_status = 'yellow'
      else: overall_status = 'green'
  else:
      (classification of current_utilization)
  \<close>
\<close>

definition overall_status :: "alert list \<Rightarrow> real \<Rightarrow> string" where
  "overall_status alerts current_utilization =
     (if alerts \<noteq> [] then
        (let has_red = list_ex (\<lambda>a. severity a = ''red'') alerts;
             has_yellow = list_ex (\<lambda>a. severity a = ''yellow'') alerts
         in if has_red then ''red''
            else if has_yellow then ''yellow''
            else ''green'')
      else status_from_utilization current_utilization)"

subsection \<open>Recommendation score\<close>

text \<open>
  Lines 337 to 339 of \<^verbatim>\<open>public.compare_hospitals\<close>:
  \<^verbatim>\<open>
  availability_score = ((hospital.total_beds - current_occ) / hospital.total_beds) * 50
  future_availability_score = ((hospital.total_beds - avg_predicted) / hospital.total_beds) * 50
  recommendation_score = availability_score + future_availability_score
  \<close>
\<close>

definition recommendation_score :: "int \<Rightarrow> int \<Rightarrow> real \<Rightarrow> py_error + real" where
  "recommendation_score total_beds current_occ avg_predicted =
     (case py_div (of_int (total_beds - current_occ)) (of_int total_beds) of
        Inl e \<Rightarrow> Inl e
      | Inr q_now \<Rightarrow>
          (let availability_score = q_now * 50
           in case py_div (of_int total_beds - avg_predicted) (of_int total_beds) of
                Inl e \<Rightarrow> Inl e
              | Inr q_future \<Rightarrow>
                  (let future_availability_score = q_future * 50
                   in Inr (availability_score + future_availability_score))))"

subsection \<open>Primary model and forecast selection\<close>

text \<open>
  \<^verbatim>\<open>prediction_service.predict_occupancy(ehr_records, days)\<close> is an external
  collaborator: a parameter of the embedding that returns the forecast points and the
  model metadata, or raises.
\<close>

datatype info_value = InfoStr string | InfoInt int

type_synonym model_info = "(string \<times> info_value) list"

type_synonym primary_model =
  "ehr_record list \<Rightarrow> int \<Rightarrow> py_error + prediction list \<times> model_info"

text \<open>
  The selection of the public router (lines 246 to 256 and 431 to 441):
  \<^verbatim>\<open>
  if len(ehr_records) >= 14:
      try:
          predictions, _ = prediction_service.predict_occupancy(ehr_records=ehr_records, days=days)
      except Exception:
          predictions = _build_fallback_forecast(ehr_records, hospital.total_beds, days)
  else:
      predictions = _build_fallback_forecast(ehr_records, hospital.total_beds, days)
  \<close>
\<close>

definition public_predictions ::
    "primary_model \<Rightarrow> ehr_record list \<Rightarrow> int \<Rightarrow> int \<Rightarrow> py_error + prediction list" where
  "public_predictions primary ehr_records total_beds days =
     (if 14 \<le> length ehr_records then
        (case primary ehr_records days of
           Inl e \<Rightarrow> build_fallback_forecast ehr_records total_beds days
         | Inr (predictions, info) \<Rightarrow> Inr predictions)
      else build_fallback_forecast ehr_records total_beds days)"

text \<open>
  The seven-day average of \<^verbatim>\<open>compare_hospitals\<close> (lines 317 to 333);
  \<^verbatim>\<open>sum(...) / len(predictions)\<close> raises on an empty forecast, inside the
  \<^verbatim>\<open>try\<close> for the primary model and behind \<^verbatim>\<open>if fallback\<close> for the fallback.
\<close>

definition mean_predicted :: "prediction list \<Rightarrow> py_error + real" where
  "mean_predicted predictions =
     py_div (sum_list (map predicted_occupancy predictions)) (real (length predictions))"

definition fallback_average :: "ehr_record list \<Rightarrow> int \<Rightarrow> int \<Rightarrow> py_error + real" where
  "fallback_average ehr_records total_beds current_occ =
     (case build_fallback_forecast ehr_records total_beds 7 of
        Inl e \<Rightarrow> Inl e
      | Inr fallback \<Rightarrow>
          if fallback \<noteq> [] then mean_predicted fallback else Inr (of_int current_occ))"

definition avg_predicted_7_days ::
    "primary_model \<Rightarrow> ehr_record list \<Rightarrow> int \<Rightarrow> int \<Rightarrow> py_error + real" where
  "avg_predicted_7_days primary ehr_records total_beds current_occ =
     (if 14 \<le> length ehr_records then
        (case (case primary ehr_records 7 of
                 Inl e \<Rightarrow> Inl e
               | Inr (predictions, info) \<Rightarrow> mean_predicted predictions) of
           Inl e \<Rightarrow> fallback_average ehr_records total_beds current_occ
         | Inr a \<Rightarrow> Inr a)
      else fallback_average ehr_records total_beds current_occ)"

text \<open>
  \<^verbatim>\<open>(record.occupied_beds / hospital.total_beds) * 100\<close> of the dashboard (lines 195
  and 213): dividing \<^verbatim>\<open>None\<close> raises \<^verbatim>\<open>TypeError\<close>.
\<close>

definition record_utilization :: "ehr_record \<Rightarrow> int \<Rightarrow> py_error + real" where
  "record_utilization r total_beds =
     (case occupied_beds r of
        None \<Rightarrow> Inl TypeError
      | Some occ \<Rightarrow>
          (case py_div (of_int occ) (of_int total_beds) of
             Inl e \<Rightarrow> Inl e
           | Inr q \<Rightarrow> Inr (q * 100)))"

fun historical_utilization :: "ehr_record list \<Rightarrow> int \<Rightarrow> py_error + real list" where
  "historical_utilization [] total_beds = Inr []"
| "historical_utilization (r # rest) total_beds =
     (case record_utilization r total_beds of
        Inl e \<Rightarrow> Inl e
      | Inr u \<Rightarrow>
          (case historical_utilization rest total_beds of
             Inl e \<Rightarrow> Inl e
           | Inr us \<Rightarrow> Inr (u # us)))"

subsection \<open>Storage rows and endpoints\<close>

record hospital =
  hospital_id :: int
  hospital_name :: string
  location :: string
  total_beds :: int
  icu_beds :: int

text \<open>
  Storage is a parameter of every endpoint: the hospital row (\<open>None\<close> when the id is
  unknown) and the hospital's records in ascending date order. The most recent record
  (\<^verbatim>\<open>order_by(desc(EHRRecord.date)).first()\<close>) is the last of that series.
\<close>

definition latest_record :: "ehr_record list \<Rightarrow> ehr_record option" where
  "latest_record ehr_records = (if ehr_records = [] then None else Some (last ehr_records))"

text \<open>\<^verbatim>\<open>predictions.predict_occupancy\<close> (administrator surface).\<close>

record prediction_response =
  pr_hospital_id :: int
  pr_total_beds :: int
  pr_predictions :: "prediction list"
  pr_model_info :: model_info

definition predict_occupancy ::
    "primary_model \<Rightarrow> hospital option \<Rightarrow> ehr_record list \<Rightarrow> int
       \<Rightarrow> py_error + prediction_response" where
  "predict_occupancy primary hospital_row ehr_records days =
     (case hospital_row of
        None \<Rightarrow> Inl (HTTPException 404)
      | Some hospital \<Rightarrow>
          if length ehr_records = 0 then Inl (HTTPException 404)
          else
            (case (if 14 \<le> length ehr_records then primary ehr_records days
                   else
                     (case build_fallback_predictions ehr_records (total_beds hospital) days of
                        Inl e \<Rightarrow> Inl e
                      | Inr predictions \<Rightarrow>
                          Inr (predictions,
                               [(''model'', InfoStr ''fallback_trend''),
                                (''history_points'', InfoInt (int (length ehr_records))),
                                (''note'', InfoStr
                                   ''Insufficient history for Prophet. Using trend-based fallback forecast.'')]))) of
               Inl e \<Rightarrow> Inl (HTTPException 500)
             | Inr (predictions, info) \<Rightarrow>
                 Inr \<lparr> pr_hospital_id = hospital_id hospital,
                       pr_total_beds = total_beds hospital,
                       pr_predictions = predictions,
                       pr_model_info = info \<rparr>))"

text \<open>
  The forecast and alert block of \<^verbatim>\<open>predictions.get_dashboard\<close> (lines 218 to
  259). \<^verbatim>\<open>prediction_service.generate_alerts\<close> is an external collaborator and a
  parameter. The \<^verbatim>\<open>try\<close> covers the forecast and the alert generation; the handler
  rebuilds both from the fallback forecaster.
\<close>

type_synonym alert_generator = "prediction list \<Rightarrow> int \<Rightarrow> string \<Rightarrow> py_error + alert list"

definition dashboard_forecast ::
    "primary_model \<Rightarrow> alert_generator \<Rightarrow> hospital \<Rightarrow> ehr_record list
       \<Rightarrow> py_error + prediction list \<times> alert list" where
  "dashboard_forecast primary generate_alerts hospital all_records =
     (case (case (if 14 \<le> length all_records then
                    (case primary all_records 7 of
                       Inl e \<Rightarrow> Inl e
                     | Inr (pred_data, info) \<Rightarrow> Inr pred_data)
                  else build_fallback_predictions all_records (total_beds hospital) 7) of
              Inl e \<Rightarrow> Inl e
            | Inr pred_data \<Rightarrow>
                (case generate_alerts pred_data (total_beds hospital) (hospital_name hospital) of
                   Inl e \<Rightarrow> Inl e
                 | Inr alert_data \<Rightarrow> Inr (pred_data, alert_data))) of
        Inr r \<Rightarrow> Inr r
      | Inl e \<Rightarrow>
          (case build_fallback_predictions all_records (total_beds hospital) 7 of
             Inl e' \<Rightarrow> Inl e'
           | Inr fallback_data \<Rightarrow>
               (case generate_alerts fallback_data (total_beds hospital)
                       (hospital_name hospital) of
                  Inl e' \<Rightarrow> Inl e'
                | Inr fallback_alerts \<Rightarrow> Inr (fallback_data, fallback_alerts))))"

text \<open>
  \<^verbatim>\<open>predictions.get_dashboard\<close>; \<open>today\<close> is \<^verbatim>\<open>date.today()\<close>.
\<close>

record dashboard_response =
  db_current_occupied :: "int option"
  db_current_utilization :: real
  db_historical_utilization :: "real list"
  db_predictions :: "prediction list"
  db_alerts :: "alert list"
  db_overall_status :: string

definition get_dashboard ::
    "primary_model \<Rightarrow> alert_generator \<Rightarrow> int \<Rightarrow> hospital option \<Rightarrow> ehr_record list
       \<Rightarrow> py_error + dashboard_response" where
  "get_dashboard primary generate_alerts today hospital_row all_records =
     (case hospital_row of
        None \<Rightarrow> Inl (HTTPException 404)
      | Some hospital \<Rightarrow>
          (case latest_record all_records of
             None \<Rightarrow> Inl (HTTPException 404)
           | Some latest \<Rightarrow>
               (case record_utilization latest (total_beds hospital) of
                  Inl e \<Rightarrow> Inl e
                | Inr current_utilization \<Rightarrow>
                    (case historical_utilization
                            (filter (\<lambda>r. today - 30 \<le> date r) all_records)
                            (total_beds hospital) of
                       Inl e \<Rightarrow> Inl e
                     | Inr historical_data \<Rightarrow>
                         (case dashboard_forecast primary generate_alerts hospital all_records of
                            Inl e \<Rightarrow> Inl e
                          | Inr (predictions, alerts) \<Rightarrow>
                              Inr \<lparr> db_current_occupied = occupied_beds latest,
                                    db_current_utilization = py_round1 current_utilization,
                                    db_historical_utilization = historical_data,
                                    db_predictions = predictions,
                                    db_alerts = alerts,
                                    db_overall_status =
                                      overall_status alerts current_utilization \<rparr>)))))"

text \<open>\<^verbatim>\<open>public.get_hospital_availability\<close>.\<close>

record hospital_availability =
  av_current_occupied :: int
  av_current_available :: int
  av_utilization_percentage :: real
  av_status :: string
  av_last_updated :: "int option"

definition get_hospital_availability ::
    "hospital option \<Rightarrow> ehr_record list \<Rightarrow> py_error + hospital_availability" where
  "get_hospital_availability hospital_row ehr_records =
     (case hospital_row of
        None \<Rightarrow> Inl (HTTPException 404)
      | Some hospital \<Rightarrow>
          (case latest_record ehr_records of
             None \<Rightarrow>
               Inr \<lparr> av_current_occupied = 0,
                     av_current_available = total_beds hospital,
                     av_utilization_percentage = 0,
                     av_status = ''unknown'',
                     av_last_updated = None \<rparr>
           | Some latest \<Rightarrow>
               (let current_occupied =
                      clamp_occupancy_public (map_option real_of_int (occupied_beds latest))
                        (total_beds hospital);
                    current_available = max 0 (total_beds hospital - current_occupied)
                in case calculate_utilization current_occupied (total_beds hospital) of
                     Inl e \<Rightarrow> Inl e
                   | Inr utilization \<Rightarrow>
                       Inr \<lparr> av_current_occupied = current_occupied,
                             av_current_available = current_available,
                             av_utilization_percentage = utilization,
                             av_status = availability_status utilization,
                             av_last_updated = Some (date latest) \<rparr>)))"

text \<open>\<^verbatim>\<open>public.get_hospital_forecast\<close>.\<close>

record hospital_forecast =
  hf_forecast :: "day_forecast list"
  best_day_to_visit :: "int option"
  best_day_occupancy :: "int option"

definition get_hospital_forecast ::
    "primary_model \<Rightarrow> hospital option \<Rightarrow> ehr_record list \<Rightarrow> int
       \<Rightarrow> py_error + hospital_forecast" where
  "get_hospital_forecast primary hospital_row ehr_records days =
     (case hospital_row of
        None \<Rightarrow> Inl (HTTPException 404)
      | Some hospital \<Rightarrow>
          if length ehr_records = 0 then
            Inr \<lparr> hf_forecast = [], best_day_to_visit = None, best_day_occupancy = None \<rparr>
          else
            (case public_predictions primary ehr_records (total_beds hospital) days of
               Inl e \<Rightarrow> Inl e
             | Inr predictions \<Rightarrow>
                 (case format_forecast_response predictions (total_beds hospital) of
                    Inl e \<Rightarrow> Inl e
                  | Inr (forecast_days, best_day, best_occupancy) \<Rightarrow>
                      Inr \<lparr> hf_forecast = forecast_days,
                            best_day_to_visit = best_day,
                            best_day_occupancy = best_occupancy \<rparr>)))"

text \<open>
  \<^verbatim>\<open>public.get_hospital_alerts\<close>, up to the alert list. The search for alternate
  hospitals that follows (lines 466 to 494) does not change the alerts and is not
  modelled.
\<close>

definition get_hospital_alerts ::
    "primary_model \<Rightarrow> hospital option \<Rightarrow> ehr_record list \<Rightarrow> py_error + alert list" where
  "get_hospital_alerts primary hospital_row ehr_records =
     (case hospital_row of
        None \<Rightarrow> Inl (HTTPException 404)
      | Some hospital \<Rightarrow>
          (case public_predictions primary ehr_records (total_beds hospital) 7 of
             Inl e \<Rightarrow> Inl e
           | Inr predictions \<Rightarrow> availability_alerts predictions (total_beds hospital)))"

text \<open>
  \<^verbatim>\<open>public.compare_hospitals\<close>. The argument is the result of the hospital query
  (after the optional city filter), each hospital with its records. The loop body has
  no handler of its own: an exception in one hospital's entry leaves the loop.
\<close>

record hospital_comparison =
  hc_hospital_id :: int
  hc_current_occupancy :: int
  hc_current_available :: int
  hc_utilization_percentage :: real
  avg_predicted_occupancy_7_days :: real
  hc_recommendation_score :: real
  hc_risk_level :: string

definition comparison_entry ::
    "primary_model \<Rightarrow> hospital \<Rightarrow> ehr_record list \<Rightarrow> ehr_record
       \<Rightarrow> py_error + hospital_comparison" where
  "comparison_entry primary hospital ehr_records latest =
     (let current_occ =
            clamp_occupancy_public (map_option real_of_int (occupied_beds latest))
              (total_beds hospital);
          current_avail = max 0 (total_beds hospital - current_occ)
      in case calculate_utilization current_occ (total_beds hospital) of
           Inl e \<Rightarrow> Inl e
         | Inr utilization \<Rightarrow>
             (case avg_predicted_7_days primary ehr_records (total_beds hospital) current_occ of
                Inl e \<Rightarrow> Inl e
              | Inr avg_predicted \<Rightarrow>
                  (case recommendation_score (total_beds hospital) current_occ avg_predicted of
                     Inl e \<Rightarrow> Inl e
                   | Inr score \<Rightarrow>
                       Inr \<lparr> hc_hospital_id = hospital_id hospital,
                             hc_current_occupancy = current_occ,
                             hc_current_available = current_avail,
                             hc_utilization_percentage = utilization,
                             avg_predicted_occupancy_7_days = py_round1 avg_predicted,
                             hc_recommendation_score = py_round1 score,
                             hc_risk_level = comparison_risk utilization \<rparr>)))"

fun compare_loop ::
    "primary_model \<Rightarrow> (hospital \<times> ehr_record list) list
       \<Rightarrow> py_error + hospital_comparison list" where
  "compare_loop primary [] = Inr []"
| "compare_loop primary ((hospital, ehr_records) # rest) =
     (case latest_record ehr_records of
        None \<Rightarrow> compare_loop primary rest
      | Some latest \<Rightarrow>
          (case comparison_entry primary hospital ehr_records latest of
             Inl e \<Rightarrow> Inl e
           | Inr entry \<Rightarrow>
               (case compare_loop primary rest of
                  Inl e \<Rightarrow> Inl e
                | Inr comparisons \<Rightarrow> Inr (entry # comparisons))))"

definition compare_hospitals ::
    "primary_model \<Rightarrow> (hospital \<times> ehr_record list) list
       \<Rightarrow> py_error + hospital_comparison list" where
  "compare_hospitals primary hospitals =
     (if hospitals = [] then Inl (HTTPException 404)
      else
        (case compare_loop primary hospitals of
           Inl e \<Rightarrow> Inl e
         | Inr comparisons \<Rightarrow>
             Inr (sort_key (\<lambda>c. - hc_recommendation_score c) comparisons)))"

subsection \<open>The specification's formulations\<close>

text \<open>
  The trend delta in the specification's words: the recent window is the last eight
  normalised values (fewer when the history is shorter); the trend delta is the average
  of the successive differences within the window, \<open>0\<close> when the window has fewer
  than two points, clamped to \<open>[-5, 5]\<close>.
\<close>

fun successive_differences :: "real list \<Rightarrow> real list" where
  "successive_differences (a # b # xs) = (b - a) # successive_differences (b # xs)"
| "successive_differences xs = []"

definition spec_trend_delta :: "real list \<Rightarrow> real" where
  "spec_trend_delta normalized =
     (let window = rev (take 8 (rev normalized));
          diffs = successive_differences window
      in if length window < 2 then 0
         else max (- 5) (min 5 (sum_list diffs / real (length diffs))))"

text \<open>
  Steps 2 and 6 of the specification's algorithm: the normalised occupancy of every
  record, and \<open>predicted = normalize(last_occupancy + trend_delta * o, total_beds)\<close>.
\<close>

definition normalized_series :: "ehr_record list \<Rightarrow> int \<Rightarrow> real list" where
  "normalized_series records tb =
     map (\<lambda>r. clamp_occupancy (map_option real_of_int (occupied_beds r)) tb) records"

definition spec_predicted :: "ehr_record list \<Rightarrow> int \<Rightarrow> int \<Rightarrow> real" where
  "spec_predicted records tb offset =
     (let normalized = normalized_series records tb;
          last_occupancy = last normalized;
          trend_delta = spec_trend_delta normalized
      in clamp_occupancy (Some (last_occupancy + trend_delta * of_int offset)) tb)"

text \<open>
  Utilisation in the specification's words: the occupancy as a percentage of the
  capacity, reported as \<open>0\<close> for a non-positive capacity; the patient surface rounds it
  to one decimal place.
\<close>

definition utilization_value :: "int \<Rightarrow> int \<Rightarrow> real" where
  "utilization_value occupied tb =
     (if tb \<le> 0 then 0 else py_round1 (of_int occupied / of_int tb * 100))"

text \<open>
  The risk classifier in the specification's words: at least 85 is the high tier, at
  least 70 the medium tier, anything else the low tier.
\<close>

datatype tier = Low | Medium | High

definition classify :: "real \<Rightarrow> tier" where
  "classify utilization_percentage =
     (if 85 \<le> utilization_percentage then High
      else if 70 \<le> utilization_percentage then Medium
      else Low)"

text \<open>
  The utilisation figure that each surface classifies, for an occupancy and a capacity:
  the patient surface the percentage rounded to one decimal place
  (\<^verbatim>\<open>_calculate_utilization\<close>), the dashboard the percentage itself
  (\<^verbatim>\<open>(latest_record.occupied_beds / hospital.total_beds) * 100\<close>).
\<close>

definition raw_percentage :: "int \<Rightarrow> int \<Rightarrow> real" where
  "raw_percentage occupied tb = of_int occupied / of_int tb * 100"

definition public_tier :: "int \<Rightarrow> int \<Rightarrow> tier" where
  "public_tier occupied tb = classify (utilization_value occupied tb)"

definition dashboard_tier :: "int \<Rightarrow> int \<Rightarrow> tier" where
  "dashboard_tier occupied tb = classify (raw_percentage occupied tb)"

text \<open>The labels of the tiers on each surface.\<close>

definition risk_label :: "tier \<Rightarrow> string" where
  "risk_label t = (case t of High \<Rightarrow> ''high'' | Medium \<Rightarrow> ''medium'' | Low \<Rightarrow> ''low'')"

definition availability_label :: "tier \<Rightarrow> string" where
  "availability_label t =
     (case t of High \<Rightarrow> ''high'' | Medium \<Rightarrow> ''moderate'' | Low \<Rightarrow> ''available'')"

definition status_colour :: "tier \<Rightarrow> string" where
  "status_colour t =
     (case t of High \<Rightarrow> ''red'' | Medium \<Rightarrow> ''yellow'' | Low \<Rightarrow> ''green'')"

text \<open>
  The recommendation score in the specification's words:
  \<open>(total_beds - current_occupied) / total_beds * 50\<close> plus
  \<open>(total_beds - avg_predicted) / total_beds * 50\<close>.
\<close>

definition spec_score :: "int \<Rightarrow> int \<Rightarrow> real \<Rightarrow> real" where
  "spec_score tb current_occupied avg_predicted =
     (of_int tb - of_int current_occupied) / of_int tb * 50
     + (of_int tb - avg_predicted) / of_int tb * 50"

text \<open>
  The best day in words: position \<open>i\<close> of the forecast holds the smallest predicted
  occupancy of the horizon, and every earlier day is strictly more occupied.
\<close>

definition earliest_minimum :: "day_forecast list \<Rightarrow> nat \<Rightarrow> bool" where
  "earliest_minimum days i \<longleftrightarrow>
     i < length days
     \<and> list_all (\<lambda>d. df_predicted_occupancy (days ! i) \<le> df_predicted_occupancy d) days
     \<and> list_all (\<lambda>d. df_predicted_occupancy (days ! i) < df_predicted_occupancy d)
         (take i days)"

subsection \<open>Concrete inputs\<close>

text \<open>
  A primary model that always fails, and one that forecasts 150 occupied beds for every
  day of the horizon.
\<close>

definition failing_primary :: primary_model where
  "failing_primary ehr_records days = Inl PrimaryModelError"

definition surge_primary :: primary_model where
  "surge_primary ehr_records days =
     Inr (map (\<lambda>offset. \<lparr> pred_date = int (length ehr_records) + offset,
                           predicted_occupancy = 150,
                           lower_bound = Some 142, upper_bound = Some 158 \<rparr>) [1..days],
          [(''model'', InfoStr ''prophet'')])"

text \<open>A series of \<open>n\<close> daily records from day 1 on, with the given occupancy on day \<open>i\<close>.\<close>

definition series :: "int \<Rightarrow> (int \<Rightarrow> int) \<Rightarrow> ehr_record list" where
  "series n occ = map (\<lambda>i. \<lparr> date = i, occupied_beds = Some (occ i) \<rparr>) [1..n]"

definition ward :: "int \<Rightarrow> int \<Rightarrow> hospital" where
  "ward i beds =
     \<lparr> hospital_id = i, hospital_name = ''Ward'', location = ''Pune, Maharashtra'',
       total_beds = beds, icu_beds = 0 \<rparr>"

text \<open>
  The scenario of the specification (20 records rising by two beds a day to 60), a
  series whose trend is a third of a bed a day, and a flat fortnight.
\<close>

definition rising_scenario :: "ehr_record list" where
  "rising_scenario = series 20 (\<lambda>i. 20 + 2 * i)"

definition slow_rise :: "ehr_record list" where
  "slow_rise = series 4 (\<lambda>i. if i = 4 then 11 else 10)"

definition steady_fortnight :: "ehr_record list" where
  "steady_fortnight = series 14 (\<lambda>i. 50)"

text \<open>A single day at 90 beds, and two days falling by five beds to 5.\<close>

definition crowded_day :: "ehr_record list" where
  "crowded_day = series 1 (\<lambda>i. 90)"

definition falling :: "ehr_record list" where
  "falling = series 2 (\<lambda>i. 15 - 5 * i)"

text \<open>
  A fortnight at 100 beds, two days easing by five beds to 72, and a single day at 130
  beds.
\<close>

definition full_fortnight :: "ehr_record list" where
  "full_fortnight = series 14 (\<lambda>i. 100)"

definition easing :: "ehr_record list" where
  "easing = series 2 (\<lambda>i. 82 - 5 * i)"

definition busy_day :: "ehr_record list" where
  "busy_day = series 1 (\<lambda>i. 130)"

text \<open>A single day at 5 beds.\<close>

definition quiet_day :: "ehr_record list" where
  "quiet_day = series 1 (\<lambda>i. 5)"

text \<open>
  A stand-in for the external alert generator, in the dashboard's labels: a red alert
  for a forecast day at or above 85 percent of the beds, a yellow one from 70 percent.
\<close>

definition colour_alerts :: alert_generator where
  "colour_alerts predictions beds name =
     Inr (concat (map (\<lambda>p.
            if 85 * real_of_int beds \<le> predicted_occupancy p * 100 then
              [\<lparr> alert_type = ''high_occupancy'', severity = ''red'',
                  alert_date = pred_date p \<rparr>]
            else if 70 * real_of_int beds \<le> predicted_occupancy p * 100 then
              [\<lparr> alert_type = ''capacity_warning'', severity = ''yellow'',
                  alert_date = pred_date p \<rparr>]
            else []) predictions))"

text \<open>
  Two more stand-ins for the alert generator: one that labels its alerts as the patient
  router and the specification do (critical, warning), and one that raises no alert.
\<close>

definition public_label_alerts :: alert_generator where
  "public_label_alerts predictions beds name = availability_alerts predictions beds"

definition no_alerts :: alert_generator where
  "no_alerts predictions beds name = Inr []"

section \<open>Verification\<close>

subsection \<open>Rounding\<close>

lemma py_int_of_int: "py_int (of_int n) = n"
  by (simp add: py_int_def)

lemma py_round_of_int: "py_round (of_int n) = n"
  by (simp add: py_round_def)

lemma py_round_lower: "\<lfloor>x\<rfloor> \<le> py_round x"
  by (simp add: py_round_def Let_def)

lemma py_round_upper: "py_round x \<le> \<lfloor>x\<rfloor> + 1"
  by (simp add: py_round_def Let_def)

lemma py_round_mono: "x \<le> y \<Longrightarrow> py_round x \<le> py_round y"
proof -
  assume xy: "x \<le> y"
  have fl: "\<lfloor>x\<rfloor> \<le> \<lfloor>y\<rfloor>" using xy by (rule floor_mono)
  show ?thesis
  proof (cases "\<lfloor>x\<rfloor> = \<lfloor>y\<rfloor>")
    case True
    with xy show ?thesis by (auto simp: py_round_def Let_def)
  next
    case False
    with fl have "\<lfloor>x\<rfloor> + 1 \<le> \<lfloor>y\<rfloor>" by simp
    with py_round_upper [of x] py_round_lower [of y] show ?thesis by linarith
  qed
qed

lemma py_round_ge_int: "of_int a \<le> x \<Longrightarrow> a \<le> py_round x"
  using py_round_mono [of "of_int a" x] by (simp add: py_round_of_int)

lemma py_round_le_int: "x \<le> of_int b \<Longrightarrow> py_round x \<le> b"
  using py_round_mono [of x "of_int b"] by (simp add: py_round_of_int)

lemma py_round_min: "py_round (min x (of_int b)) = min (py_round x) b"
  using py_round_mono [of x "of_int b"] py_round_mono [of "of_int b" x]
  by (auto simp: min_def py_round_of_int)

lemma py_round_max: "py_round (max (of_int a) x) = max a (py_round x)"
  using py_round_mono [of x "of_int a"] py_round_mono [of "of_int a" x]
  by (auto simp: max_def py_round_of_int)

lemma py_round1_ge: "of_int a \<le> x \<Longrightarrow> of_int a \<le> py_round1 x"
proof -
  assume "of_int a \<le> x"
  then have "of_int (a * 10) \<le> x * 10" by simp
  then have "a * 10 \<le> py_round (x * 10)" by (rule py_round_ge_int)
  then have "real_of_int (a * 10) \<le> of_int (py_round (x * 10))" by (simp only: of_int_le_iff)
  then show ?thesis by (simp add: py_round1_def)
qed

lemma py_round1_le: "x \<le> of_int b \<Longrightarrow> py_round1 x \<le> of_int b"
proof -
  assume "x \<le> of_int b"
  then have "x * 10 \<le> of_int (b * 10)" by simp
  then have "py_round (x * 10) \<le> b * 10" by (rule py_round_le_int)
  then have "real_of_int (py_round (x * 10)) \<le> of_int (b * 10)" by (simp only: of_int_le_iff)
  then show ?thesis by (simp add: py_round1_def)
qed

lemma py_round1_of_int: "py_round1 (of_int n) = of_int n"
proof -
  have "py_round (of_int n * 10) = py_round (of_int (n * 10))" by simp
  then show ?thesis by (simp add: py_round1_def py_round_of_int del: of_int_mult)
qed

subsection \<open>Normaliser\<close>

lemma clamp_occupancy_nonneg: "0 \<le> clamp_occupancy v tb"
  by (simp add: clamp_occupancy_def)

lemma clamp_occupancy_le: "0 < tb \<Longrightarrow> clamp_occupancy v tb \<le> of_int tb"
  by (simp add: clamp_occupancy_def)

lemma clamp_occupancy_public_nonneg: "0 \<le> clamp_occupancy_public v tb"
  by (simp add: clamp_occupancy_public_def)

lemma clamp_occupancy_public_le: "0 < tb \<Longrightarrow> clamp_occupancy_public v tb \<le> tb"
  by (simp add: clamp_occupancy_public_def)

lemma clamp_occupancy_public_int:
  "of_int (clamp_occupancy_public (map_option real_of_int w) tb)
     = clamp_occupancy (map_option real_of_int w) tb"
  by (cases w) (auto simp: clamp_occupancy_public_def clamp_occupancy_def or_0_def py_int_def
      max_def min_def)

lemma clamp_occupancy_public_round:
  "clamp_occupancy_public (Some (of_int (py_round x))) tb
     = py_round (clamp_occupancy (Some x) tb)"
proof -
  have "py_round (max 0 x) = max 0 (py_round x)"
    using py_round_max [of 0 x] by simp
  moreover have "py_round (max 0 (min x (of_int tb))) = max 0 (min (py_round x) tb)"
    using py_round_max [of 0 "min x (of_int tb)"] by (simp add: py_round_min)
  ultimately show ?thesis
    by (simp add: clamp_occupancy_public_def clamp_occupancy_def or_0_def py_int_of_int)
qed

text \<open>
  Claim C6, as the code has it. For every value (a number or \<open>None\<close>) and every
  \<open>total_beds\<close>: with positive capacity the administrator normaliser returns the value
  clamped into \<open>[0, total_beds]\<close>, and with non-positive capacity \<open>max(0, value or 0)\<close>;
  the patient normaliser does the same to \<open>int(value or 0)\<close>, the value truncated toward
  zero, and so agrees with the administrator normaliser on integer values. A missing
  value counts as \<open>0\<close>. Both results are non-negative and, with positive capacity, at
  most \<open>total_beds\<close>. Neither function has a raising operation: both are total.
\<close>

theorem normalize_clamps:
  "clamp_occupancy v tb =
      (if 0 < tb then max 0 (min (or_0 v) (of_int tb)) else max 0 (or_0 v))
   \<and> clamp_occupancy_public v tb =
      (if 0 < tb then max 0 (min (py_int (or_0 v)) tb) else max 0 (py_int (or_0 v)))
   \<and> (or_0 v \<in> \<int> \<longrightarrow> of_int (clamp_occupancy_public v tb) = clamp_occupancy v tb)
   \<and> or_0 None = 0
   \<and> 0 \<le> clamp_occupancy v tb \<and> 0 \<le> clamp_occupancy_public v tb
   \<and> (0 < tb \<longrightarrow> clamp_occupancy v tb \<le> of_int tb \<and> clamp_occupancy_public v tb \<le> tb)"
proof -
  have "of_int (clamp_occupancy_public v tb) = clamp_occupancy v tb" if "or_0 v \<in> \<int>"
  proof -
    from that obtain n where n: "or_0 v = of_int n" by (auto elim: Ints_cases)
    then show ?thesis
      by (auto simp: clamp_occupancy_public_def clamp_occupancy_def py_int_of_int
          max_def min_def)
  qed
  then show ?thesis
    by (simp add: clamp_occupancy_def clamp_occupancy_public_def or_0_def)
qed

text \<open>The normalisers at concrete inputs, above, below and without capacity.\<close>

theorem normalize_clamps_witness:
  "clamp_occupancy (Some 150) 100 = 100 \<and> clamp_occupancy_public (Some 150) 100 = 100
   \<and> clamp_occupancy (Some (- 3)) 100 = 0 \<and> clamp_occupancy_public None 100 = 0
   \<and> clamp_occupancy (Some 150) 0 = 150"
  using normalize_clamps [of "Some 150" 100] normalize_clamps [of "Some (- 3)" 100]
    normalize_clamps [of None 100] normalize_clamps [of "Some 150" 0]
  by (simp add: or_0_def py_int_def)

text \<open>
  The patient normaliser does not return the value clamped: \<open>2.7\<close> beds of \<open>10\<close>
  become \<open>2\<close>.
\<close>

theorem normalize_truncates_counterexample:
  "real_of_int (clamp_occupancy_public (Some (27 / 10)) 10) \<noteq> max 0 (min (27 / 10) 10)"
  by (simp add: clamp_occupancy_public_def or_0_def py_int_def)

subsection \<open>Trend delta\<close>

lemma length_successive_differences:
  "length (successive_differences xs) = length xs - 1"
  by (induction xs rule: successive_differences.induct) simp_all

lemma nth_successive_differences:
  "Suc i < length xs \<Longrightarrow> successive_differences xs ! i = xs ! Suc i - xs ! i"
proof (induction xs arbitrary: i rule: successive_differences.induct)
  case (1 a b xs)
  then show ?case by (cases i) simp_all
qed simp_all

lemma index_deltas_eq:
  "map (\<lambda>i. xs ! i - xs ! (i - 1)) [1..<length xs] = successive_differences xs"
  by (rule nth_equalityI) (simp_all add: length_successive_differences nth_successive_differences)

lemma last8_eq: "last8 xs = rev (take 8 (rev xs))"
  by (simp add: last8_def rev_take)

lemma recent_deltas_eq:
  "recent_deltas xs = successive_differences (rev (take 8 (rev xs)))"
  unfolding recent_deltas_def Let_def last8_eq by (rule index_deltas_eq)

lemma avg_delta_eq: "avg_delta xs = Inr (spec_trend_delta xs)"
proof -
  let ?w = "rev (take 8 (rev xs))"
  have len: "length (successive_differences ?w) = length ?w - 1"
    by (rule length_successive_differences)
  show ?thesis
  proof (cases "length ?w < 2")
    case True
    then have "successive_differences ?w = []" using len by simp
    with True show ?thesis
      by (simp add: avg_delta_def spec_trend_delta_def recent_deltas_eq Let_def)
  next
    case False
    then have ne: "successive_differences ?w \<noteq> []" using len by auto
    with False show ?thesis
      by (simp add: avg_delta_def spec_trend_delta_def recent_deltas_eq Let_def py_div_def)
  qed
qed

lemma spec_trend_delta_bounds: "- 5 \<le> spec_trend_delta xs \<and> spec_trend_delta xs \<le> 5"
  by (simp add: spec_trend_delta_def Let_def)

subsection \<open>Fallback forecasters\<close>

lemma py_last_nonempty: "xs \<noteq> [] \<Longrightarrow> py_last xs = Inr (last xs)"
  by (cases xs) (simp_all add: py_last_def)

lemma build_fallback_predictions_eq:
  assumes "rs \<noteq> []"
  shows "build_fallback_predictions rs tb days =
    Inr (map (fallback_point (date (last rs))
               (clamp_occupancy (map_option real_of_int (occupied_beds (last rs))) tb)
               (spec_trend_delta
                  (map (\<lambda>r. clamp_occupancy (map_option real_of_int (occupied_beds r)) tb) rs))
               tb)
          [1..days])"
  using assms
  by (simp add: build_fallback_predictions_def Let_def avg_delta_eq py_last_nonempty last_map)

lemma build_fallback_forecast_eq:
  assumes "rs \<noteq> []"
  shows "build_fallback_forecast rs tb days =
    Inr (map (fallback_forecast_point (date (last rs))
               (clamp_occupancy_public (map_option real_of_int (occupied_beds (last rs))) tb)
               (spec_trend_delta
                  (map (\<lambda>r. clamp_occupancy (map_option real_of_int (occupied_beds r)) tb) rs))
               tb)
          [1..days])"
proof -
  have "map real_of_int
          (map (\<lambda>r. clamp_occupancy_public (map_option real_of_int (occupied_beds r)) tb) rs)
        = map (\<lambda>r. clamp_occupancy (map_option real_of_int (occupied_beds r)) tb) rs"
    by (simp add: clamp_occupancy_public_int)
  with assms show ?thesis
    by (simp add: build_fallback_forecast_def Let_def avg_delta_eq py_last_nonempty last_map
        del: map_map)
qed

text \<open>
  Claim C7. Both fallback forecasters return the empty sequence for an empty record
  list, and for a non-empty list, any \<open>total_beds\<close> and a positive horizon they return
  (the result is \<open>Inr\<close>, no exception) exactly \<open>days\<close> forecast points.
\<close>

theorem fallback_forecaster_total:
  "build_fallback_predictions [] tb days = Inr []
   \<and> build_fallback_forecast [] tb days = Inr []
   \<and> (rs \<noteq> [] \<longrightarrow> 0 < days \<longrightarrow>
        (\<exists>ps. build_fallback_predictions rs tb days = Inr ps \<and> int (length ps) = days)
      \<and> (\<exists>qs. build_fallback_forecast rs tb days = Inr qs \<and> int (length qs) = days))"
  by (simp add: build_fallback_predictions_eq build_fallback_forecast_eq)
    (simp add: build_fallback_predictions_def build_fallback_forecast_def)

text \<open>Three records, a horizon of seven days: seven points from either forecaster.\<close>

theorem fallback_forecaster_total_witness:
  "(\<exists>ps. build_fallback_predictions (series 3 (\<lambda>i. 10 + i)) 100 7 = Inr ps
         \<and> int (length ps) = 7)
   \<and> (\<exists>qs. build_fallback_forecast (series 3 (\<lambda>i. 10 + i)) 100 7 = Inr qs
         \<and> int (length qs) = 7)
   \<and> build_fallback_forecast [] 100 7 = Inr []"
proof -
  have ne: "series 3 (\<lambda>i. 10 + i) \<noteq> []" by code_simp
  show ?thesis
    using ne fallback_forecaster_total [of 100 7 "series 3 (\<lambda>i. 10 + i)"] by simp
qed


text \<open>
  Claim C1, as the code has it. For a non-empty series and every offset \<open>k\<close> from
  \<open>1\<close> to \<open>days\<close>, the \<open>k\<close>-th point of either fallback forecaster is dated
  \<open>k\<close> days after the last record. With \<open>predicted\<close> the specification's
  \<open>normalize(last_occupancy + trend_delta * k, total_beds)\<close>, the administrator
  forecaster reports \<open>predicted\<close> rounded to one decimal place, with the bounds
  \<open>normalize(predicted - 8)\<close> and \<open>normalize(predicted + 8)\<close> rounded likewise; the
  patient forecaster reports \<open>predicted\<close> rounded to the nearest whole bed and no
  bounds. The trend delta is the specification's: the mean of the successive
  differences of the last at most eight normalised occupancies, clamped to \<open>[-5, 5]\<close>,
  and \<open>0\<close> for a window of fewer than two points.
\<close>

theorem fallback_points:
  assumes "rs \<noteq> []" and "1 \<le> k" and "k \<le> days"
  shows "map_sum id (\<lambda>ps. ps ! nat (k - 1)) (build_fallback_predictions rs tb days) =
           Inr \<lparr> pred_date = date (last rs) + k,
                 predicted_occupancy = py_round1 (spec_predicted rs tb k),
                 lower_bound =
                   Some (py_round1 (clamp_occupancy (Some (spec_predicted rs tb k - 8)) tb)),
                 upper_bound =
                   Some (py_round1 (clamp_occupancy (Some (spec_predicted rs tb k + 8)) tb)) \<rparr>
       \<and> map_sum id (\<lambda>qs. qs ! nat (k - 1)) (build_fallback_forecast rs tb days) =
           Inr \<lparr> pred_date = date (last rs) + k,
                 predicted_occupancy = of_int (py_round (spec_predicted rs tb k)),
                 lower_bound = None,
                 upper_bound = None \<rparr>"
proof -
  have last_norm: "last (normalized_series rs tb)
      = clamp_occupancy (map_option real_of_int (occupied_beds (last rs))) tb"
    using assms(1) by (simp add: normalized_series_def last_map)
  have admin: "fallback_point (date (last rs))
        (clamp_occupancy (map_option real_of_int (occupied_beds (last rs))) tb)
        (spec_trend_delta (normalized_series rs tb)) tb k
      = \<lparr> pred_date = date (last rs) + k,
          predicted_occupancy = py_round1 (spec_predicted rs tb k),
          lower_bound =
            Some (py_round1 (clamp_occupancy (Some (spec_predicted rs tb k - 8)) tb)),
          upper_bound =
            Some (py_round1 (clamp_occupancy (Some (spec_predicted rs tb k + 8)) tb)) \<rparr>"
    by (simp add: fallback_point_def spec_predicted_def Let_def last_norm)
  have pub: "fallback_forecast_point (date (last rs))
        (clamp_occupancy_public (map_option real_of_int (occupied_beds (last rs))) tb)
        (spec_trend_delta (normalized_series rs tb)) tb k
      = \<lparr> pred_date = date (last rs) + k,
          predicted_occupancy = of_int (py_round (spec_predicted rs tb k)),
          lower_bound = None, upper_bound = None \<rparr>"
    by (simp add: fallback_forecast_point_def spec_predicted_def Let_def last_norm
        clamp_occupancy_public_round clamp_occupancy_public_int)
  have idx: "nat (k - 1) < length [1..days]" and nth: "[1..days] ! nat (k - 1) = k"
    using assms(2,3) by (simp_all add: nth_upto)
  show ?thesis
    using assms(1) idx nth admin pub
    by (simp add: build_fallback_predictions_eq build_fallback_forecast_eq
        normalized_series_def [symmetric])
qed

text \<open>
  The specification's scenario: 100 beds, 20 records rising by two beds a day to a last
  occupancy of 60. Day 1 is 62 with bounds 54 and 70, day 2 is 64 with bounds 56 and 72.
\<close>

theorem fallback_points_witness:
  "map_sum id (\<lambda>ps. ps ! 0) (build_fallback_predictions rising_scenario 100 7) =
     Inr \<lparr> pred_date = 21, predicted_occupancy = 62,
           lower_bound = Some 54, upper_bound = Some 70 \<rparr>
   \<and> map_sum id (\<lambda>ps. ps ! 1) (build_fallback_predictions rising_scenario 100 7) =
     Inr \<lparr> pred_date = 22, predicted_occupancy = 64,
           lower_bound = Some 56, upper_bound = Some 72 \<rparr>
   \<and> map_sum id (\<lambda>qs. qs ! 0) (build_fallback_forecast rising_scenario 100 7) =
     Inr \<lparr> pred_date = 21, predicted_occupancy = 62, lower_bound = None, upper_bound = None \<rparr>
   \<and> map_sum id (\<lambda>qs. qs ! 1) (build_fallback_forecast rising_scenario 100 7) =
     Inr \<lparr> pred_date = 22, predicted_occupancy = 64, lower_bound = None, upper_bound = None \<rparr>"
proof -
  let ?rs = "rising_scenario"
  have ne: "?rs \<noteq> []" by code_simp
  have lst: "date (last ?rs) = 20" by code_simp
  have p1: "spec_predicted ?rs 100 1 = 62"
    by code_simp
  have p2: "spec_predicted ?rs 100 2 = 64"
    by code_simp
  have r: "py_round1 62 = 62" "py_round1 54 = 54" "py_round1 70 = 70"
    "py_round1 64 = 64" "py_round1 56 = 56" "py_round1 72 = 72"
    "py_round 62 = 62" "py_round 64 = 64"
    by code_simp+
  show ?thesis
    using fallback_points [OF ne, of 1 7 100] fallback_points [OF ne, of 2 7 100]
    by (simp add: lst p1 p2 r clamp_occupancy_def or_0_def)
qed

text \<open>
  The reported occupancy is not the unrounded \<open>normalize(last_occupancy + trend_delta * o)\<close>:
  after the occupancies 10, 10, 10, 11 the trend is a third of a bed a day and the
  specification's value for day 1 is \<open>34/3\<close>; the administrator forecaster reports
  \<open>11.3\<close> and the patient forecaster \<open>11\<close>.
\<close>

theorem fallback_points_counterexample:
  "build_fallback_predictions slow_rise 100 1 =
     Inr [\<lparr> pred_date = 5, predicted_occupancy = 113 / 10,
            lower_bound = Some (33 / 10), upper_bound = Some (193 / 10) \<rparr>]
   \<and> build_fallback_forecast slow_rise 100 1 =
     Inr [\<lparr> pred_date = 5, predicted_occupancy = 11,
            lower_bound = None, upper_bound = None \<rparr>]
   \<and> spec_predicted slow_rise 100 1 = 34 / 3"
  by code_simp

subsection \<open>Utilisation and classification\<close>

lemma calculate_utilization_eq:
  "calculate_utilization occupied tb = Inr (utilization_value occupied tb)"
  by (simp add: calculate_utilization_def utilization_value_def py_div_def)

lemma availability_alerts_eq:
  "availability_alerts ps tb =
     Inr (concat (map (\<lambda>p.
       case classify (utilization_value
                        (clamp_occupancy_public (Some (predicted_occupancy p)) tb) tb) of
         High \<Rightarrow> [\<lparr> alert_type = ''high_occupancy'', severity = ''critical'',
                     alert_date = pred_date p \<rparr>]
       | Medium \<Rightarrow> [\<lparr> alert_type = ''capacity_warning'', severity = ''warning'',
                       alert_date = pred_date p \<rparr>]
       | Low \<Rightarrow> []) ps))"
  by (induction ps) (simp_all add: calculate_utilization_eq classify_def Let_def)

subsection \<open>Best day\<close>

lemma format_forecast_loop_inv:
  assumes "format_forecast_loop tb ps (acc, mo, bd) = Inr (days, mo', bd')"
    and "(acc = [] \<and> mo = None \<and> bd = None)
         \<or> (\<exists>i. earliest_minimum acc i \<and> mo = Some (df_predicted_occupancy (acc ! i))
                \<and> bd = Some (df_date (acc ! i)))"
  shows "(days = [] \<and> mo' = None \<and> bd' = None)
         \<or> (\<exists>i. earliest_minimum days i \<and> mo' = Some (df_predicted_occupancy (days ! i))
                \<and> bd' = Some (df_date (days ! i)))"
  using assms
proof (induction ps arbitrary: acc mo bd)
  case Nil
  then show ?case by simp
next
  case (Cons p ps)
  let ?occ = "clamp_occupancy_public (Some (predicted_occupancy p)) tb"
  let ?day = "\<lparr> df_date = pred_date p, df_predicted_occupancy = ?occ,
                 df_predicted_available = max 0 (tb - ?occ),
                 df_utilization_percentage = utilization_value ?occ tb,
                 df_risk_level = risk_from_utilization (utilization_value ?occ tb) \<rparr>"
  show ?case
  proof (cases "below_min ?occ mo")
    case True
    with Cons.prems(1)
    have run: "format_forecast_loop tb ps (acc @ [?day], Some ?occ, Some (pred_date p))
                 = Inr (days, mo', bd')"
      by (simp add: calculate_utilization_eq Let_def)
    have "earliest_minimum (acc @ [?day]) (length acc)"
      using True Cons.prems(2)
      by (auto simp: earliest_minimum_def below_min_def list_all_iff)
    then have "\<exists>i. earliest_minimum (acc @ [?day]) i
        \<and> Some ?occ = Some (df_predicted_occupancy ((acc @ [?day]) ! i))
        \<and> Some (pred_date p) = Some (df_date ((acc @ [?day]) ! i))"
      by (intro exI [of _ "length acc"]) simp
    then show ?thesis using Cons.IH [OF run] by blast
  next
    case False
    with Cons.prems(1)
    have run: "format_forecast_loop tb ps (acc @ [?day], mo, bd) = Inr (days, mo', bd')"
      by (simp add: calculate_utilization_eq Let_def)
    from False obtain m where m: "mo = Some m" "m \<le> ?occ"
      by (auto simp: below_min_def split: option.splits)
    with Cons.prems(2) obtain i where i: "earliest_minimum acc i"
      "mo = Some (df_predicted_occupancy (acc ! i))" "bd = Some (df_date (acc ! i))"
      by auto
    have "earliest_minimum (acc @ [?day]) i"
      using i m by (auto simp: earliest_minimum_def nth_append list_all_iff)
    moreover have "(acc @ [?day]) ! i = acc ! i"
      using i(1) by (simp add: earliest_minimum_def nth_append)
    ultimately have "\<exists>i. earliest_minimum (acc @ [?day]) i
        \<and> mo = Some (df_predicted_occupancy ((acc @ [?day]) ! i))
        \<and> bd = Some (df_date ((acc @ [?day]) ! i))"
      using i by auto
    then show ?thesis using Cons.IH [OF run] by blast
  qed
qed

lemma format_forecast_loop_days:
  "\<exists>days mo' bd'. format_forecast_loop tb ps (acc, mo, bd) = Inr (days, mo', bd')
     \<and> map df_date days = map df_date acc @ map pred_date ps
     \<and> map df_predicted_occupancy days =
         map df_predicted_occupancy acc
         @ map (\<lambda>p. clamp_occupancy_public (Some (predicted_occupancy p)) tb) ps"
proof (induction ps arbitrary: acc mo bd)
  case Nil
  then show ?case by simp
next
  case (Cons p ps)
  let ?occ = "clamp_occupancy_public (Some (predicted_occupancy p)) tb"
  let ?day = "\<lparr> df_date = pred_date p, df_predicted_occupancy = ?occ,
                 df_predicted_available = max 0 (tb - ?occ),
                 df_utilization_percentage = utilization_value ?occ tb,
                 df_risk_level = risk_from_utilization (utilization_value ?occ tb) \<rparr>"
  show ?case
  proof (cases "below_min ?occ mo")
    case True
    then have "format_forecast_loop tb (p # ps) (acc, mo, bd)
        = format_forecast_loop tb ps (acc @ [?day], Some ?occ, Some (pred_date p))"
      by (simp add: calculate_utilization_eq Let_def)
    with Cons.IH [of "acc @ [?day]" "Some ?occ" "Some (pred_date p)"]
    show ?thesis by auto
  next
    case False
    then have "format_forecast_loop tb (p # ps) (acc, mo, bd)
        = format_forecast_loop tb ps (acc @ [?day], mo, bd)"
      by (simp add: calculate_utilization_eq Let_def)
    with Cons.IH [of "acc @ [?day]" mo bd]
    show ?thesis by auto
  qed
qed

lemma format_forecast_response_best:
  "\<exists>days best occ. format_forecast_response ps tb = Inr (days, best, occ)
     \<and> map df_date days = map pred_date ps
     \<and> map df_predicted_occupancy days =
         map (\<lambda>p. clamp_occupancy_public (Some (predicted_occupancy p)) tb) ps
     \<and> (best = None \<longleftrightarrow> days = []) \<and> (occ = None \<longleftrightarrow> days = [])
     \<and> (days = [] \<or>
          (\<exists>i. earliest_minimum days i \<and> best = Some (df_date (days ! i))
               \<and> occ = Some (df_predicted_occupancy (days ! i))))"
proof -
  obtain days mo' bd' where
    run: "format_forecast_loop tb ps ([], None, None) = Inr (days, mo', bd')"
    and d: "map df_date days = map pred_date ps"
      "map df_predicted_occupancy days =
         map (\<lambda>p. clamp_occupancy_public (Some (predicted_occupancy p)) tb) ps"
    using format_forecast_loop_days [of tb ps "[]" None None] by auto
  from format_forecast_loop_inv [OF run]
  have inv: "(days = [] \<and> mo' = None \<and> bd' = None)
      \<or> (\<exists>i. earliest_minimum days i \<and> mo' = Some (df_predicted_occupancy (days ! i))
             \<and> bd' = Some (df_date (days ! i)))"
    by simp
  have ne: "days \<noteq> []" if "earliest_minimum days i" for i
    using that by (auto simp: earliest_minimum_def)
  have "format_forecast_response ps tb = Inr (days, bd', mo')"
    by (simp add: format_forecast_response_def run)
  with d inv ne show ?thesis by auto
qed

text \<open>
  Claim C10. Formatting a forecast never raises and keeps the dates and the normalised
  occupancies in order. The best day and its occupancy are \<open>None\<close> exactly when the
  forecast is empty; otherwise the best day is the date of a day whose predicted
  occupancy is the smallest of the horizon and strictly smaller than that of every
  earlier day, and the best occupancy is that day's. The same holds of every response
  of the public forecast endpoint.
\<close>

theorem best_day_is_earliest_minimum:
  "(\<exists>days best occ. format_forecast_response ps tb = Inr (days, best, occ)
      \<and> map df_date days = map pred_date ps
      \<and> map df_predicted_occupancy days =
          map (\<lambda>p. clamp_occupancy_public (Some (predicted_occupancy p)) tb) ps
      \<and> (best = None \<longleftrightarrow> days = []) \<and> (occ = None \<longleftrightarrow> days = [])
      \<and> (days = [] \<or>
           (\<exists>i. earliest_minimum days i \<and> best = Some (df_date (days ! i))
                \<and> occ = Some (df_predicted_occupancy (days ! i)))))
   \<and> (get_hospital_forecast primary hospital_row rs horizon = Inr resp \<longrightarrow>
        (best_day_to_visit resp = None \<longleftrightarrow> hf_forecast resp = [])
      \<and> (best_day_occupancy resp = None \<longleftrightarrow> hf_forecast resp = [])
      \<and> (hf_forecast resp = [] \<or>
           (\<exists>i. earliest_minimum (hf_forecast resp) i
                \<and> best_day_to_visit resp = Some (df_date (hf_forecast resp ! i))
                \<and> best_day_occupancy resp =
                    Some (df_predicted_occupancy (hf_forecast resp ! i)))))"
proof -
  have "(best_day_to_visit resp = None \<longleftrightarrow> hf_forecast resp = [])
      \<and> (best_day_occupancy resp = None \<longleftrightarrow> hf_forecast resp = [])
      \<and> (hf_forecast resp = [] \<or>
           (\<exists>i. earliest_minimum (hf_forecast resp) i
                \<and> best_day_to_visit resp = Some (df_date (hf_forecast resp ! i))
                \<and> best_day_occupancy resp =
                    Some (df_predicted_occupancy (hf_forecast resp ! i))))"
    if g: "get_hospital_forecast primary hospital_row rs horizon = Inr resp"
  proof (cases "rs = []")
    case True
    with g show ?thesis
      by (auto simp: get_hospital_forecast_def split: option.splits)
  next
    case False
    with g have "\<exists>predictions beds days best occ.
        format_forecast_response predictions beds = Inr (days, best, occ)
        \<and> resp = \<lparr> hf_forecast = days, best_day_to_visit = best,
                     best_day_occupancy = occ \<rparr>"
      by (auto simp: get_hospital_forecast_def split: option.splits sum.splits prod.splits)
        blast
    then obtain predictions beds days best occ where
      f: "format_forecast_response predictions beds = Inr (days, best, occ)"
      and r: "resp = \<lparr> hf_forecast = days, best_day_to_visit = best,
                     best_day_occupancy = occ \<rparr>"
      by blast
    from format_forecast_response_best [of predictions beds] f r
    show ?thesis by auto
  qed
  with format_forecast_response_best [of ps tb] show ?thesis by blast
qed

text \<open>
  Two records falling to 5 beds: the three forecast days are all clamped to 0, and the
  first of them, day 3, is the best day.
\<close>

theorem best_day_is_earliest_minimum_witness:
  "\<exists>resp. get_hospital_forecast failing_primary (Some (ward 1 100)) falling 3 = Inr resp
      \<and> map df_predicted_occupancy (hf_forecast resp) = [0, 0, 0]
      \<and> best_day_to_visit resp = Some 3 \<and> best_day_occupancy resp = Some 0
      \<and> (\<exists>i. earliest_minimum (hf_forecast resp) i
             \<and> best_day_to_visit resp = Some (df_date (hf_forecast resp ! i)))"
proof -
  have "map_sum id (\<lambda>r. (map df_predicted_occupancy (hf_forecast r), best_day_to_visit r,
                          best_day_occupancy r))
          (get_hospital_forecast failing_primary (Some (ward 1 100)) falling 3)
        = Inr ([0, 0, 0], Some 3, Some 0)"
    by code_simp
  then obtain resp where
    r: "get_hospital_forecast failing_primary (Some (ward 1 100)) falling 3 = Inr resp"
    and v: "map df_predicted_occupancy (hf_forecast resp) = [0, 0, 0]"
      "best_day_to_visit resp = Some 3" "best_day_occupancy resp = Some 0"
    by (cases "get_hospital_forecast failing_primary (Some (ward 1 100)) falling 3") auto
  from v(1) have ne: "hf_forecast resp \<noteq> []" by auto
  from r ne
    best_day_is_earliest_minimum
      [of "[]" 100 failing_primary "Some (ward 1 100)" falling 3 resp]
  have "\<exists>i. earliest_minimum (hf_forecast resp) i
          \<and> best_day_to_visit resp = Some (df_date (hf_forecast resp ! i))"
    by blast
  with r v show ?thesis by (intro exI [of _ resp]) simp
qed

subsection \<open>Seven-day average\<close>

lemma sum_list_upper: "\<forall>x \<in> set xs. x \<le> b \<Longrightarrow> sum_list xs \<le> real (length xs) * b"
  by (induction xs) (auto simp: algebra_simps)

lemma sum_list_lower: "\<forall>x \<in> set xs. a \<le> x \<Longrightarrow> real (length xs) * a \<le> sum_list xs"
  by (induction xs) (auto simp: algebra_simps)

lemma mean_predicted_bounds:
  assumes "ps \<noteq> []"
    and "\<forall>p \<in> set ps. a \<le> predicted_occupancy p \<and> predicted_occupancy p \<le> b"
  shows "\<exists>m. mean_predicted ps = Inr m \<and> a \<le> m \<and> m \<le> b"
proof -
  let ?xs = "map predicted_occupancy ps"
  have n: "0 < real (length ps)" using assms(1) by simp
  have ub: "\<forall>x \<in> set ?xs. x \<le> b" and lb: "\<forall>x \<in> set ?xs. a \<le> x"
    using assms(2) by auto
  have "sum_list ?xs \<le> real (length ?xs) * b" "real (length ?xs) * a \<le> sum_list ?xs"
    using sum_list_upper [OF ub] sum_list_lower [OF lb] by blast+
  then have "sum_list ?xs / real (length ps) \<le> b" "a \<le> sum_list ?xs / real (length ps)"
    using n by (simp_all add: pos_divide_le_eq pos_le_divide_eq mult.commute)
  with n show ?thesis by (simp add: mean_predicted_def py_div_def)
qed

lemma mean_predicted_total_nonempty: "ps \<noteq> [] \<Longrightarrow> \<exists>m. mean_predicted ps = Inr m"
  by (simp add: mean_predicted_def py_div_def)

lemma fallback_forecast_point_range:
  "0 \<le> predicted_occupancy (fallback_forecast_point d l delta tb k)
   \<and> (0 < tb \<longrightarrow> predicted_occupancy (fallback_forecast_point d l delta tb k) \<le> of_int tb)"
  by (simp add: fallback_forecast_point_def Let_def clamp_occupancy_public_nonneg
      clamp_occupancy_public_le)

lemma fallback_average_total:
  "\<exists>a. fallback_average rs tb cur = Inr a
       \<and> (0 < tb \<longrightarrow> 0 \<le> cur \<longrightarrow> cur \<le> tb \<longrightarrow> 0 \<le> a \<and> a \<le> of_int tb)"
proof (cases "rs = []")
  case True
  then show ?thesis
    by (simp add: fallback_average_def build_fallback_forecast_def)
next
  case False
  let ?qs = "map (fallback_forecast_point (date (last rs))
               (clamp_occupancy_public (map_option real_of_int (occupied_beds (last rs))) tb)
               (spec_trend_delta
                  (map (\<lambda>r. clamp_occupancy (map_option real_of_int (occupied_beds r)) tb) rs))
               tb) [1..7]"
  have b: "build_fallback_forecast rs tb 7 = Inr ?qs"
    using False by (rule build_fallback_forecast_eq)
  have ne: "?qs \<noteq> []" by simp
  have fa: "fallback_average rs tb cur = mean_predicted ?qs"
    unfolding fallback_average_def b using ne by simp
  show ?thesis
  proof (cases "0 < tb")
    case True
    have "\<forall>q \<in> set ?qs. 0 \<le> predicted_occupancy q \<and> predicted_occupancy q \<le> of_int tb"
      using True fallback_forecast_point_range by auto
    from mean_predicted_bounds [OF ne this] fa show ?thesis by auto
  next
    case False
    with mean_predicted_total_nonempty [OF ne] fa show ?thesis by auto
  qed
qed

lemma avg_predicted_7_days_total: "\<exists>a. avg_predicted_7_days primary rs tb cur = Inr a"
  using fallback_average_total [of rs tb cur]
  by (auto simp: avg_predicted_7_days_def split: sum.splits prod.splits)

subsection \<open>Score and entry of a comparison\<close>

lemma recommendation_score_eq:
  "tb \<noteq> 0 \<Longrightarrow> recommendation_score tb cur avg =
     Inr (of_int (tb - cur) / of_int tb * 50 + (of_int tb - avg) / of_int tb * 50)"
  by (simp add: recommendation_score_def py_div_def Let_def)

lemma recommendation_score_zero_beds:
  "recommendation_score 0 cur avg = Inl ZeroDivisionError"
  by (simp add: recommendation_score_def py_div_def)

lemma comparison_entry_eq:
  assumes "total_beds h \<noteq> 0"
    and "avg_predicted_7_days primary rs (total_beds h)
           (clamp_occupancy_public (map_option real_of_int (occupied_beds latest))
              (total_beds h)) = Inr avg"
  shows "\<exists>e. comparison_entry primary h rs latest = Inr e
     \<and> hc_hospital_id e = hospital_id h
     \<and> hc_recommendation_score e =
         py_round1
           (of_int (total_beds h
                    - clamp_occupancy_public (map_option real_of_int (occupied_beds latest))
                        (total_beds h)) / of_int (total_beds h) * 50
            + (of_int (total_beds h) - avg) / of_int (total_beds h) * 50)"
  using assms
  by (simp add: comparison_entry_def Let_def calculate_utilization_eq recommendation_score_eq)

lemma comparison_entry_zero_beds:
  "total_beds h = 0 \<Longrightarrow> comparison_entry primary h rs latest = Inl ZeroDivisionError"
  using avg_predicted_7_days_total [of primary rs 0
          "clamp_occupancy_public (map_option real_of_int (occupied_beds latest)) 0"]
  by (auto simp: comparison_entry_def Let_def calculate_utilization_eq
      recommendation_score_zero_beds)

subsection \<open>Degenerate capacity\<close>

text \<open>
  Claim C8, at a hospital with \<open>total_beds = 0\<close> and one record of 5 occupied beds.
  The availability endpoint reports a utilisation of 0, as the claim says. The
  comparison divides by \<open>total_beds\<close> at line 337 and raises
  \<^verbatim>\<open>ZeroDivisionError\<close>; the dashboard does the same at line 195.
\<close>

theorem degenerate_capacity_comparison_raises:
  "compare_hospitals failing_primary [(ward 1 0, quiet_day)] = Inl ZeroDivisionError
   \<and> get_hospital_availability (Some (ward 1 0)) quiet_day =
       Inr \<lparr> av_current_occupied = 5, av_current_available = 0,
             av_utilization_percentage = 0, av_status = ''available'',
             av_last_updated = Some 1 \<rparr>
   \<and> get_dashboard failing_primary colour_alerts 1 (Some (ward 1 0)) quiet_day =
       Inl ZeroDivisionError"
  by code_simp

subsection \<open>Comparison\<close>

lemma compare_loop_total:
  assumes "\<forall>(h, rs) \<in> set hs. rs \<noteq> [] \<longrightarrow> total_beds h \<noteq> 0"
  shows "\<exists>es. compare_loop primary hs = Inr es
     \<and> map hc_hospital_id es = map (\<lambda>(h, rs). hospital_id h) (filter (\<lambda>(h, rs). rs \<noteq> []) hs)"
  using assms
proof (induction hs)
  case Nil
  then show ?case by simp
next
  case (Cons x hs)
  obtain h rs where x: "x = (h, rs)" by (cases x)
  from Cons obtain es where es: "compare_loop primary hs = Inr es"
    "map hc_hospital_id es = map (\<lambda>(h, rs). hospital_id h) (filter (\<lambda>(h, rs). rs \<noteq> []) hs)"
    by auto
  show ?case
  proof (cases "rs = []")
    case True
    with es x show ?thesis by (simp add: latest_record_def)
  next
    case False
    with Cons.prems x have nz: "total_beds h \<noteq> 0" by simp
    from avg_predicted_7_days_total obtain avg where
      "avg_predicted_7_days primary rs (total_beds h)
         (clamp_occupancy_public (map_option real_of_int (occupied_beds (last rs)))
            (total_beds h)) = Inr avg"
      by blast
    from comparison_entry_eq [OF nz this]
    obtain e where "comparison_entry primary h rs (last rs) = Inr e"
      "hc_hospital_id e = hospital_id h"
      by blast
    with es x False show ?thesis by (simp add: latest_record_def)
  qed
qed

text \<open>
  Claim C9, as the code has it. A hospital without a record is skipped, and a failure of
  the primary model for a hospital is recovered inside that hospital's entry; neither
  stops the comparison. Whatever the primary model does, a comparison of a non-empty
  list of hospitals in which every hospital with a record has a non-zero capacity
  returns one entry for every hospital with at least one record.
\<close>

theorem comparison_skips_and_recovers:
  "hospitals \<noteq> [] \<longrightarrow>
   (\<forall>(h, rs) \<in> set hospitals. rs \<noteq> [] \<longrightarrow> total_beds h \<noteq> 0) \<longrightarrow>
   (\<exists>es. compare_hospitals primary hospitals = Inr es
      \<and> length es = length (filter (\<lambda>(h, rs). rs \<noteq> []) hospitals)
      \<and> set (map hc_hospital_id es) =
          set (map (\<lambda>(h, rs). hospital_id h) (filter (\<lambda>(h, rs). rs \<noteq> []) hospitals)))"
proof (intro impI)
  assume ne: "hospitals \<noteq> []"
    and nz: "\<forall>(h, rs) \<in> set hospitals. rs \<noteq> [] \<longrightarrow> total_beds h \<noteq> 0"
  from compare_loop_total [OF nz, of primary]
  obtain es where es: "compare_loop primary hospitals = Inr es"
    "map hc_hospital_id es =
       map (\<lambda>(h, rs). hospital_id h) (filter (\<lambda>(h, rs). rs \<noteq> []) hospitals)"
    by blast
  let ?sorted = "sort_key (\<lambda>c. - hc_recommendation_score c) es"
  have "compare_hospitals primary hospitals = Inr ?sorted"
    using ne es(1) by (simp add: compare_hospitals_def)
  moreover have "length ?sorted = length (filter (\<lambda>(h, rs). rs \<noteq> []) hospitals)"
    using arg_cong [OF es(2), of length] by simp
  moreover have "set (map hc_hospital_id ?sorted) = set (map hc_hospital_id es)"
    by simp
  ultimately show "\<exists>es. compare_hospitals primary hospitals = Inr es
      \<and> length es = length (filter (\<lambda>(h, rs). rs \<noteq> []) hospitals)
      \<and> set (map hc_hospital_id es) =
          set (map (\<lambda>(h, rs). hospital_id h) (filter (\<lambda>(h, rs). rs \<noteq> []) hospitals))"
    using es(2) by metis
qed

text \<open>
  Three hospitals, the first without records, the third with a fortnight of records on
  which the primary model fails: the comparison holds the second and the third.
\<close>

theorem comparison_skips_and_recovers_witness:
  "\<exists>es. compare_hospitals failing_primary
           [(ward 1 100, []), (ward 2 100, quiet_day), (ward 3 80, steady_fortnight)] = Inr es
      \<and> length es = 2 \<and> set (map hc_hospital_id es) = {2, 3}"
proof -
  let ?hs = "[(ward 1 100, []), (ward 2 100, quiet_day), (ward 3 80, steady_fortnight)]"
  have ne: "?hs \<noteq> []" by simp
  have nz: "\<forall>(h, rs) \<in> set ?hs. rs \<noteq> [] \<longrightarrow> total_beds h \<noteq> 0"
    by (simp add: ward_def)
  have f: "map (\<lambda>(h, rs). hospital_id h) (filter (\<lambda>(h, rs). rs \<noteq> []) ?hs) = [2, 3]"
    by code_simp
  have l: "length (filter (\<lambda>(h, rs). rs \<noteq> []) ?hs) = 2"
    using arg_cong [OF f, of length] by simp
  from comparison_skips_and_recovers [of ?hs failing_primary] ne nz
  show ?thesis by (simp only: f l) simp
qed

text \<open>
  The entry of the second hospital is computed without an exception, alone and in a
  comparison of its own; behind a hospital whose entry raises, the comparison returns
  no entry at all.
\<close>

theorem comparison_aborts_counterexample:
  "compare_hospitals failing_primary [(ward 1 0, quiet_day), (ward 2 100, quiet_day)]
     = Inl ZeroDivisionError
   \<and> \<not> isl (comparison_entry failing_primary (ward 2 100) quiet_day
               \<lparr> date = 1, occupied_beds = Some 5 \<rparr>)
   \<and> \<not> isl (compare_hospitals failing_primary [(ward 2 100, quiet_day)])"
  by code_simp

subsection \<open>Failure of the primary model\<close>

lemma public_predictions_recovers:
  "14 \<le> length rs \<Longrightarrow> isl (primary rs days) \<Longrightarrow>
     public_predictions primary rs tb days = build_fallback_forecast rs tb days"
  by (cases "primary rs days") (simp_all add: public_predictions_def)

lemma format_forecast_response_total:
  "\<exists>fd bd bo. format_forecast_response ps tb = Inr (fd, bd, bo)"
  using format_forecast_response_best [of ps tb] by blast

text \<open>
  Claim C3, as the code has it. When the primary model raises on a series of at least
  14 records, the public forecast, the public alerts, the comparison's seven-day
  average and the dashboard recover locally: each continues with the output of the
  fallback forecaster, and none of them carries a provenance tag. The administrator's
  prediction endpoint does not recover: its handler turns the failure into the error
  response 500. That endpoint tags a forecast as \<open>fallback_trend\<close>, with the number
  of records, only on a series of fewer than 14 records, where the primary model is not
  called.
\<close>

theorem primary_failure_recovery:
  "(14 \<le> length rs \<longrightarrow> isl (primary rs days) \<longrightarrow> isl (primary rs 7) \<longrightarrow>
      predict_occupancy primary (Some h) rs days = Inl (HTTPException 500)
    \<and> (\<exists>ps fd bd bo.
          build_fallback_forecast rs (total_beds h) days = Inr ps
        \<and> format_forecast_response ps (total_beds h) = Inr (fd, bd, bo)
        \<and> get_hospital_forecast primary (Some h) rs days =
            Inr \<lparr> hf_forecast = fd, best_day_to_visit = bd, best_day_occupancy = bo \<rparr>)
    \<and> (\<exists>ps alerts.
          build_fallback_forecast rs (total_beds h) 7 = Inr ps
        \<and> availability_alerts ps (total_beds h) = Inr alerts
        \<and> get_hospital_alerts primary (Some h) rs = Inr alerts)
    \<and> (\<exists>a. fallback_average rs (total_beds h) cur = Inr a
           \<and> avg_predicted_7_days primary rs (total_beds h) cur = Inr a)
    \<and> (\<exists>fallback_data.
          build_fallback_predictions rs (total_beds h) 7 = Inr fallback_data
        \<and> dashboard_forecast primary generate_alerts h rs =
            (case generate_alerts fallback_data (total_beds h) (hospital_name h) of
               Inl e \<Rightarrow> Inl e
             | Inr fallback_alerts \<Rightarrow> Inr (fallback_data, fallback_alerts))))
   \<and> (rs \<noteq> [] \<longrightarrow> length rs < 14 \<longrightarrow>
        (\<exists>ps. build_fallback_predictions rs (total_beds h) days = Inr ps
           \<and> predict_occupancy primary (Some h) rs days =
               Inr \<lparr> pr_hospital_id = hospital_id h,
                     pr_total_beds = total_beds h,
                     pr_predictions = ps,
                     pr_model_info =
                       [(''model'', InfoStr ''fallback_trend''),
                        (''history_points'', InfoInt (int (length rs))),
                        (''note'', InfoStr
                           ''Insufficient history for Prophet. Using trend-based fallback forecast.'')] \<rparr>))"
proof -
  have long: "predict_occupancy primary (Some h) rs days = Inl (HTTPException 500)
    \<and> (\<exists>ps fd bd bo.
          build_fallback_forecast rs (total_beds h) days = Inr ps
        \<and> format_forecast_response ps (total_beds h) = Inr (fd, bd, bo)
        \<and> get_hospital_forecast primary (Some h) rs days =
            Inr \<lparr> hf_forecast = fd, best_day_to_visit = bd, best_day_occupancy = bo \<rparr>)
    \<and> (\<exists>ps alerts.
          build_fallback_forecast rs (total_beds h) 7 = Inr ps
        \<and> availability_alerts ps (total_beds h) = Inr alerts
        \<and> get_hospital_alerts primary (Some h) rs = Inr alerts)
    \<and> (\<exists>a. fallback_average rs (total_beds h) cur = Inr a
           \<and> avg_predicted_7_days primary rs (total_beds h) cur = Inr a)
    \<and> (\<exists>fallback_data.
          build_fallback_predictions rs (total_beds h) 7 = Inr fallback_data
        \<and> dashboard_forecast primary generate_alerts h rs =
            (case generate_alerts fallback_data (total_beds h) (hospital_name h) of
               Inl e \<Rightarrow> Inl e
             | Inr fallback_alerts \<Rightarrow> Inr (fallback_data, fallback_alerts)))"
    if len: "14 \<le> length rs" and f: "isl (primary rs days)" and f7: "isl (primary rs 7)"
  proof -
    from len have ne: "rs \<noteq> []" by auto
    from f obtain e where e: "primary rs days = Inl e" by (cases "primary rs days") auto
    from f7 obtain e7 where e7: "primary rs 7 = Inl e7" by (cases "primary rs 7") auto
    have p: "predict_occupancy primary (Some h) rs days = Inl (HTTPException 500)"
      using len ne e by (simp add: predict_occupancy_def)
    obtain ps where ps: "build_fallback_forecast rs (total_beds h) days = Inr ps"
      using build_fallback_forecast_eq [OF ne] by blast
    obtain fd bd bo where fr: "format_forecast_response ps (total_beds h) = Inr (fd, bd, bo)"
      using format_forecast_response_total by blast
    have g: "get_hospital_forecast primary (Some h) rs days =
        Inr \<lparr> hf_forecast = fd, best_day_to_visit = bd, best_day_occupancy = bo \<rparr>"
      using ne ps fr public_predictions_recovers [of rs primary days "total_beds h"] len f
      by (simp add: get_hospital_forecast_def)
    obtain ps7 where ps7: "build_fallback_forecast rs (total_beds h) 7 = Inr ps7"
      using build_fallback_forecast_eq [OF ne] by blast
    obtain alerts where al: "availability_alerts ps7 (total_beds h) = Inr alerts"
      using availability_alerts_eq by blast
    have ga: "get_hospital_alerts primary (Some h) rs = Inr alerts"
      using ps7 al public_predictions_recovers [of rs primary 7 "total_beds h"] len f7
      by (simp add: get_hospital_alerts_def)
    obtain a where a: "fallback_average rs (total_beds h) cur = Inr a"
      using fallback_average_total by blast
    have av: "avg_predicted_7_days primary rs (total_beds h) cur = Inr a"
      using len e7 a by (simp add: avg_predicted_7_days_def)
    obtain fb where fb: "build_fallback_predictions rs (total_beds h) 7 = Inr fb"
      using build_fallback_predictions_eq [OF ne] by blast
    have d: "dashboard_forecast primary generate_alerts h rs =
            (case generate_alerts fb (total_beds h) (hospital_name h) of
               Inl e \<Rightarrow> Inl e
             | Inr fallback_alerts \<Rightarrow> Inr (fb, fallback_alerts))"
      using len e7 fb by (simp add: dashboard_forecast_def)
    from p ps fr g ps7 al ga a av fb d show ?thesis by blast
  qed
  have short: "\<exists>ps. build_fallback_predictions rs (total_beds h) days = Inr ps
           \<and> predict_occupancy primary (Some h) rs days =
               Inr \<lparr> pr_hospital_id = hospital_id h,
                     pr_total_beds = total_beds h,
                     pr_predictions = ps,
                     pr_model_info =
                       [(''model'', InfoStr ''fallback_trend''),
                        (''history_points'', InfoInt (int (length rs))),
                        (''note'', InfoStr
                           ''Insufficient history for Prophet. Using trend-based fallback forecast.'')] \<rparr>"
    if ne: "rs \<noteq> []" and len: "length rs < 14"
  proof -
    obtain ps where ps: "build_fallback_predictions rs (total_beds h) days = Inr ps"
      using build_fallback_predictions_eq [OF ne] by blast
    with ne len show ?thesis by (simp add: predict_occupancy_def)
  qed
  from long short show ?thesis by blast
qed

text \<open>
  A flat fortnight on which the primary model fails, and a single day, for a hospital
  of 100 beds.
\<close>

theorem primary_failure_recovery_witness:
  "predict_occupancy failing_primary (Some (ward 1 100)) steady_fortnight 7
     = Inl (HTTPException 500)
   \<and> (\<exists>ps fd bd bo.
         build_fallback_forecast steady_fortnight 100 7 = Inr ps
       \<and> format_forecast_response ps 100 = Inr (fd, bd, bo)
       \<and> get_hospital_forecast failing_primary (Some (ward 1 100)) steady_fortnight 7 =
           Inr \<lparr> hf_forecast = fd, best_day_to_visit = bd, best_day_occupancy = bo \<rparr>)
   \<and> (\<exists>ps alerts.
         build_fallback_forecast steady_fortnight 100 7 = Inr ps
       \<and> availability_alerts ps 100 = Inr alerts
       \<and> get_hospital_alerts failing_primary (Some (ward 1 100)) steady_fortnight = Inr alerts)
   \<and> (\<exists>a. fallback_average steady_fortnight 100 50 = Inr a
          \<and> avg_predicted_7_days failing_primary steady_fortnight 100 50 = Inr a)
   \<and> (\<exists>ps info. predict_occupancy failing_primary (Some (ward 1 100)) quiet_day 7 =
          Inr \<lparr> pr_hospital_id = 1, pr_total_beds = 100, pr_predictions = ps,
                pr_model_info = info \<rparr>
          \<and> map_of info ''model'' = Some (InfoStr ''fallback_trend'')
          \<and> map_of info ''history_points'' = Some (InfoInt 1))"
proof -
  have len: "14 \<le> length steady_fortnight" by code_simp
  have f: "isl (failing_primary steady_fortnight 7)" by (simp add: failing_primary_def)
  have q: "quiet_day \<noteq> []" "length quiet_day < 14" "int (length quiet_day) = 1"
    by code_simp+
  have w: "total_beds (ward 1 100) = 100" "hospital_id (ward 1 100) = 1"
    by (simp_all add: ward_def)
  from primary_failure_recovery
         [of steady_fortnight failing_primary 7 "ward 1 100" 50 colour_alerts] len f
  have long: "predict_occupancy failing_primary (Some (ward 1 100)) steady_fortnight 7
     = Inl (HTTPException 500)
   \<and> (\<exists>ps fd bd bo.
         build_fallback_forecast steady_fortnight 100 7 = Inr ps
       \<and> format_forecast_response ps 100 = Inr (fd, bd, bo)
       \<and> get_hospital_forecast failing_primary (Some (ward 1 100)) steady_fortnight 7 =
           Inr \<lparr> hf_forecast = fd, best_day_to_visit = bd, best_day_occupancy = bo \<rparr>)
   \<and> (\<exists>ps alerts.
         build_fallback_forecast steady_fortnight 100 7 = Inr ps
       \<and> availability_alerts ps 100 = Inr alerts
       \<and> get_hospital_alerts failing_primary (Some (ward 1 100)) steady_fortnight = Inr alerts)
   \<and> (\<exists>a. fallback_average steady_fortnight 100 50 = Inr a
          \<and> avg_predicted_7_days failing_primary steady_fortnight 100 50 = Inr a)"
    by (simp add: w)
  from primary_failure_recovery
         [of quiet_day failing_primary 7 "ward 1 100" 50 colour_alerts] q
  have short: "\<exists>ps info. predict_occupancy failing_primary (Some (ward 1 100)) quiet_day 7 =
          Inr \<lparr> pr_hospital_id = 1, pr_total_beds = 100, pr_predictions = ps,
                pr_model_info = info \<rparr>
          \<and> map_of info ''model'' = Some (InfoStr ''fallback_trend'')
          \<and> map_of info ''history_points'' = Some (InfoInt 1)"
    by (auto simp: w)
  from long short show ?thesis by blast
qed

text \<open>
  On the flat fortnight the fallback forecaster returns a forecast, and the
  administrator's prediction endpoint answers the failure of the primary model with
  the error response 500.
\<close>

theorem primary_failure_surfaces_counterexample:
  "predict_occupancy failing_primary (Some (ward 1 100)) steady_fortnight 7
     = Inl (HTTPException 500)
   \<and> \<not> isl (build_fallback_predictions steady_fortnight 100 7)"
proof -
  have ne: "steady_fortnight \<noteq> []" by code_simp
  have "predict_occupancy failing_primary (Some (ward 1 100)) steady_fortnight 7
     = Inl (HTTPException 500)"
    by code_simp
  moreover have "\<not> isl (build_fallback_predictions steady_fortnight 100 7)"
    by (simp add: build_fallback_predictions_eq [OF ne])
  ultimately show ?thesis by simp
qed

subsection \<open>Classification on each surface\<close>

lemma py_round_close: "\<bar>of_int (py_round y) - y\<bar> \<le> 1 / 2"
proof -
  have f: "of_int \<lfloor>y\<rfloor> \<le> y" "y < of_int \<lfloor>y\<rfloor> + 1" by linarith+
  show ?thesis
    using f by (auto simp: py_round_def Let_def abs_le_iff)
qed

lemma py_round1_close: "\<bar>py_round1 x - x\<bar> \<le> 1 / 20"
proof -
  have "\<bar>of_int (py_round (x * 10)) - x * 10\<bar> \<le> 1 / 2" by (rule py_round_close)
  then show ?thesis by (simp add: py_round1_def abs_le_iff field_simps)
qed

lemma utilization_value_positive:
  "0 < tb \<Longrightarrow> utilization_value occ tb = py_round1 (raw_percentage occ tb)"
  by (simp add: utilization_value_def raw_percentage_def)

lemma tiers_of_raw_percentage:
  assumes "0 < tb"
  shows "(85 \<le> raw_percentage occ tb \<longrightarrow>
            public_tier occ tb = High \<and> dashboard_tier occ tb = High)
       \<and> (70 \<le> raw_percentage occ tb \<longrightarrow>
            public_tier occ tb \<noteq> Low \<and> dashboard_tier occ tb \<noteq> Low)
       \<and> (raw_percentage occ tb < 70 - 1 / 20 \<longrightarrow>
            public_tier occ tb = Low \<and> dashboard_tier occ tb = Low)
       \<and> (raw_percentage occ tb < 85 - 1 / 20 \<longrightarrow>
            public_tier occ tb \<noteq> High \<and> dashboard_tier occ tb \<noteq> High)"
proof -
  let ?x = "raw_percentage occ tb"
  have c: "py_round1 ?x \<le> ?x + 1 / 20" using py_round1_close [of ?x] by linarith
  have g85: "85 \<le> py_round1 ?x" if "85 \<le> ?x" using py_round1_ge [of 85 ?x] that by simp
  have g70: "70 \<le> py_round1 ?x" if "70 \<le> ?x" using py_round1_ge [of 70 ?x] that by simp
  show ?thesis
    using c g85 g70 assms
    by (auto simp: public_tier_def dashboard_tier_def classify_def utilization_value_positive)
qed

lemma format_forecast_loop_risk:
  assumes "format_forecast_loop tb ps (acc, mo, bd) = Inr (days, mo', bd')"
    and "list_all (\<lambda>d. df_risk_level d = risk_label (public_tier (df_predicted_occupancy d) tb)) acc"
  shows "list_all (\<lambda>d. df_risk_level d = risk_label (public_tier (df_predicted_occupancy d) tb)) days"
  using assms
proof (induction ps arbitrary: acc mo bd)
  case Nil
  then show ?case by simp
next
  case (Cons p ps)
  let ?occ = "clamp_occupancy_public (Some (predicted_occupancy p)) tb"
  let ?day = "\<lparr> df_date = pred_date p, df_predicted_occupancy = ?occ,
                 df_predicted_available = max 0 (tb - ?occ),
                 df_utilization_percentage = utilization_value ?occ tb,
                 df_risk_level = risk_from_utilization (utilization_value ?occ tb) \<rparr>"
  have day: "df_risk_level ?day = risk_label (public_tier (df_predicted_occupancy ?day) tb)"
    by (simp add: risk_from_utilization_def risk_label_def public_tier_def classify_def)
  with Cons.prems(2)
  have acc': "list_all (\<lambda>d. df_risk_level d = risk_label (public_tier (df_predicted_occupancy d) tb))
                (acc @ [?day])"
    by simp
  show ?case
  proof (cases "below_min ?occ mo")
    case True
    with Cons.prems(1)
    have "format_forecast_loop tb ps (acc @ [?day], Some ?occ, Some (pred_date p))
            = Inr (days, mo', bd')"
      by (simp add: calculate_utilization_eq Let_def)
    from Cons.IH [OF this acc'] show ?thesis .
  next
    case False
    with Cons.prems(1)
    have "format_forecast_loop tb ps (acc @ [?day], mo, bd) = Inr (days, mo', bd')"
      by (simp add: calculate_utilization_eq Let_def)
    from Cons.IH [OF this acc'] show ?thesis .
  qed
qed

lemma availability_alerts_tier:
  "availability_alerts ps tb =
     Inr (concat (map (\<lambda>p.
       case public_tier (clamp_occupancy_public (Some (predicted_occupancy p)) tb) tb of
         High \<Rightarrow> [\<lparr> alert_type = ''high_occupancy'', severity = ''critical'',
                     alert_date = pred_date p \<rparr>]
       | Medium \<Rightarrow> [\<lparr> alert_type = ''capacity_warning'', severity = ''warning'',
                       alert_date = pred_date p \<rparr>]
       | Low \<Rightarrow> []) ps))"
  by (simp add: availability_alerts_eq public_tier_def)

lemma get_hospital_availability_tier:
  assumes "rs \<noteq> []"
  shows "\<exists>resp. get_hospital_availability (Some h) rs = Inr resp
     \<and> av_utilization_percentage resp =
         utilization_value (av_current_occupied resp) (total_beds h)
     \<and> av_status resp = availability_label (public_tier (av_current_occupied resp) (total_beds h))"
  using assms
  by (simp add: get_hospital_availability_def latest_record_def Let_def calculate_utilization_eq
      availability_status_def availability_label_def public_tier_def classify_def)

lemma comparison_entry_tier:
  assumes "comparison_entry primary h rs latest = Inr e"
  shows "hc_utilization_percentage e = utilization_value (hc_current_occupancy e) (total_beds h)
     \<and> hc_risk_level e = risk_label (public_tier (hc_current_occupancy e) (total_beds h))"
  using assms
  by (auto simp: comparison_entry_def Let_def calculate_utilization_eq comparison_risk_def
      risk_label_def public_tier_def classify_def split: sum.splits)

lemma get_dashboard_status:
  assumes "get_dashboard primary gen today hospital_row rs = Inr resp"
  shows "\<exists>h latest occ.
       hospital_row = Some h \<and> latest_record rs = Some latest
     \<and> occupied_beds latest = Some occ \<and> total_beds h \<noteq> 0
     \<and> dashboard_forecast primary gen h rs = Inr (db_predictions resp, db_alerts resp)
     \<and> db_overall_status resp = overall_status (db_alerts resp) (raw_percentage occ (total_beds h))"
  using assms
  by (auto simp: get_dashboard_def record_utilization_def py_div_def raw_percentage_def
      split: option.splits sum.splits prod.splits if_splits)

text \<open>
  Claim C2, as the code has it. Every consumer applies the same two thresholds to the
  utilisation figure it is given: at least 85 is the high tier (high, critical, red), at
  least 70 and below 85 the medium tier (medium or moderate, warning, yellow), below 70
  the low tier (low or available, no alert, green); 70 and 85 belong to the higher
  tier. The figure differs by surface. The patient consumers (availability status,
  comparison risk, forecast risk, alert severity) classify the percentage rounded to one
  decimal place; the dashboard, when it has no alerts, classifies the percentage of the
  latest record itself. For a positive capacity, a percentage of at least 85 is in the
  high tier on both surfaces, one of at least 70 is not in the low tier on either, one
  below 69.95 is in the low tier on both and one below 84.95 in the high tier on
  neither; between 69.95 and 70, and between 84.95 and 85, the surfaces can differ.
\<close>

theorem risk_thresholds_per_surface:
  "risk_from_utilization u = risk_label (classify u)
   \<and> comparison_risk u = risk_label (classify u)
   \<and> availability_status u = availability_label (classify u)
   \<and> status_from_utilization u = status_colour (classify u)
   \<and> (classify u = High \<longleftrightarrow> 85 \<le> u)
   \<and> (classify u = Medium \<longleftrightarrow> 70 \<le> u \<and> u < 85)
   \<and> (classify u = Low \<longleftrightarrow> u < 70)
   \<and> (rs \<noteq> [] \<longrightarrow>
        (\<exists>resp. get_hospital_availability (Some h) rs = Inr resp
           \<and> av_utilization_percentage resp =
               utilization_value (av_current_occupied resp) (total_beds h)
           \<and> av_status resp =
               availability_label (public_tier (av_current_occupied resp) (total_beds h))))
   \<and> (comparison_entry primary h rs latest = Inr e \<longrightarrow>
        hc_utilization_percentage e = utilization_value (hc_current_occupancy e) (total_beds h)
      \<and> hc_risk_level e = risk_label (public_tier (hc_current_occupancy e) (total_beds h)))
   \<and> (format_forecast_response ps tb = Inr (days, best, best_occ) \<longrightarrow>
        list_all (\<lambda>d. df_risk_level d = risk_label (public_tier (df_predicted_occupancy d) tb))
          days)
   \<and> availability_alerts ps tb =
       Inr (concat (map (\<lambda>p.
         case public_tier (clamp_occupancy_public (Some (predicted_occupancy p)) tb) tb of
           High \<Rightarrow> [\<lparr> alert_type = ''high_occupancy'', severity = ''critical'',
                       alert_date = pred_date p \<rparr>]
         | Medium \<Rightarrow> [\<lparr> alert_type = ''capacity_warning'', severity = ''warning'',
                         alert_date = pred_date p \<rparr>]
         | Low \<Rightarrow> []) ps))
   \<and> (get_dashboard primary gen today hospital_row rs = Inr resp' \<longrightarrow>
        db_alerts resp' = [] \<longrightarrow>
        (\<exists>h' latest' occ.
           hospital_row = Some h' \<and> latest_record rs = Some latest'
           \<and> occupied_beds latest' = Some occ
           \<and> db_overall_status resp' = status_colour (dashboard_tier occ (total_beds h'))))
   \<and> (0 < tb \<longrightarrow>
        (85 \<le> raw_percentage occupied tb \<longrightarrow>
           public_tier occupied tb = High \<and> dashboard_tier occupied tb = High)
      \<and> (70 \<le> raw_percentage occupied tb \<longrightarrow>
           public_tier occupied tb \<noteq> Low \<and> dashboard_tier occupied tb \<noteq> Low)
      \<and> (raw_percentage occupied tb < 70 - 1 / 20 \<longrightarrow>
           public_tier occupied tb = Low \<and> dashboard_tier occupied tb = Low)
      \<and> (raw_percentage occupied tb < 85 - 1 / 20 \<longrightarrow>
           public_tier occupied tb \<noteq> High \<and> dashboard_tier occupied tb \<noteq> High))"
proof -
  have labels: "risk_from_utilization u = risk_label (classify u)
      \<and> comparison_risk u = risk_label (classify u)
      \<and> availability_status u = availability_label (classify u)
      \<and> status_from_utilization u = status_colour (classify u)
      \<and> (classify u = High \<longleftrightarrow> 85 \<le> u)
      \<and> (classify u = Medium \<longleftrightarrow> 70 \<le> u \<and> u < 85)
      \<and> (classify u = Low \<longleftrightarrow> u < 70)"
    by (simp add: risk_from_utilization_def comparison_risk_def availability_status_def
        status_from_utilization_def classify_def risk_label_def availability_label_def
        status_colour_def)
  have forecast: "list_all
        (\<lambda>d. df_risk_level d = risk_label (public_tier (df_predicted_occupancy d) tb)) days"
    if "format_forecast_response ps tb = Inr (days, best, best_occ)"
  proof -
    from that obtain mo bd where
      "format_forecast_loop tb ps ([], None, None) = Inr (days, mo, bd)"
      by (auto simp: format_forecast_response_def split: sum.splits prod.splits)
    from format_forecast_loop_risk [OF this] show ?thesis by simp
  qed
  have dash: "\<exists>h' latest' occ.
           hospital_row = Some h' \<and> latest_record rs = Some latest'
           \<and> occupied_beds latest' = Some occ
           \<and> db_overall_status resp' = status_colour (dashboard_tier occ (total_beds h'))"
    if g: "get_dashboard primary gen today hospital_row rs = Inr resp'"
      and a: "db_alerts resp' = []"
  proof -
    from get_dashboard_status [OF g] obtain h' latest' occ where
      d: "hospital_row = Some h'" "latest_record rs = Some latest'"
        "occupied_beds latest' = Some occ"
        "db_overall_status resp' =
           overall_status (db_alerts resp') (raw_percentage occ (total_beds h'))"
      by blast
    from d(4) a have "db_overall_status resp' = status_colour (dashboard_tier occ (total_beds h'))"
      by (simp add: overall_status_def status_from_utilization_def status_colour_def
          dashboard_tier_def classify_def)
    with d show ?thesis by blast
  qed
  from labels forecast dash get_hospital_availability_tier [of rs h]
    comparison_entry_tier [of primary h rs latest e]
    availability_alerts_tier [of ps tb] tiers_of_raw_percentage [of tb occupied]
  show ?thesis by blast
qed

text \<open>
  The consumers at the two boundaries and just below the lower one, and the two
  surfaces for a hospital of 100 beds with 90, 85, 70 and 69 occupied.
\<close>

theorem risk_thresholds_per_surface_witness:
  "risk_from_utilization 85 = ''high'' \<and> risk_from_utilization 70 = ''medium''
   \<and> availability_status 85 = ''high'' \<and> availability_status 70 = ''moderate''
   \<and> status_from_utilization 85 = ''red'' \<and> status_from_utilization 70 = ''yellow''
   \<and> comparison_risk (699 / 10) = ''low''
   \<and> (\<exists>resp. get_hospital_availability (Some (ward 1 100)) crowded_day = Inr resp
          \<and> av_current_occupied resp = 90 \<and> av_status resp = ''high'')
   \<and> (\<exists>resp. get_dashboard failing_primary no_alerts 1 (Some (ward 1 100)) crowded_day
             = Inr resp
          \<and> db_alerts resp = [] \<and> db_overall_status resp = ''red'')
   \<and> public_tier 85 100 = High \<and> dashboard_tier 85 100 = High
   \<and> public_tier 70 100 \<noteq> Low \<and> dashboard_tier 70 100 \<noteq> Low
   \<and> public_tier 69 100 = Low \<and> dashboard_tier 69 100 = Low"
proof -
  have lab: "risk_label High = ''high''" "risk_label Medium = ''medium''"
    "risk_label Low = ''low''" "availability_label High = ''high''"
    "availability_label Medium = ''moderate''" "status_colour High = ''red''"
    "status_colour Medium = ''yellow''"
    by (simp_all add: risk_label_def availability_label_def status_colour_def)
  have cl: "classify 85 = High" "classify 70 = Medium" "classify (699 / 10) = Low"
    by (simp_all add: classify_def)
  have raw: "raw_percentage 85 100 = 85" "raw_percentage 70 100 = 70"
    "raw_percentage 69 100 = 69" "raw_percentage 90 100 = 90"
    by (simp_all add: raw_percentage_def)
  have ne: "crowded_day \<noteq> []" by code_simp
  have tb: "total_beds (ward 1 100) = 100" by (simp add: ward_def)
  have labels: "risk_from_utilization 85 = ''high'' \<and> risk_from_utilization 70 = ''medium''
   \<and> availability_status 85 = ''high'' \<and> availability_status 70 = ''moderate''
   \<and> status_from_utilization 85 = ''red'' \<and> status_from_utilization 70 = ''yellow''
   \<and> comparison_risk (699 / 10) = ''low''"
    using risk_thresholds_per_surface [of 85] risk_thresholds_per_surface [of 70]
      risk_thresholds_per_surface [of "699 / 10"]
    by (simp add: cl lab)
  have tiers: "public_tier 85 100 = High \<and> dashboard_tier 85 100 = High
   \<and> public_tier 70 100 \<noteq> Low \<and> dashboard_tier 70 100 \<noteq> Low
   \<and> public_tier 69 100 = Low \<and> dashboard_tier 69 100 = Low"
    using risk_thresholds_per_surface [where tb = 100 and occupied = 85]
      risk_thresholds_per_surface [where tb = 100 and occupied = 70]
      risk_thresholds_per_surface [where tb = 100 and occupied = 69]
    by (simp add: raw)
  have occ: "map_sum id av_current_occupied
      (get_hospital_availability (Some (ward 1 100)) crowded_day) = Inr 90"
    by code_simp
  have pt: "public_tier 90 100 = High" "dashboard_tier 90 100 = High"
    using risk_thresholds_per_surface [where tb = 100 and occupied = 90]
    by (simp_all add: raw)
  from risk_thresholds_per_surface [where rs = crowded_day and h = "ward 1 100"] ne
  obtain resp where r: "get_hospital_availability (Some (ward 1 100)) crowded_day = Inr resp"
    "av_status resp =
       availability_label (public_tier (av_current_occupied resp) (total_beds (ward 1 100)))"
    by blast
  from r(1) occ have o: "av_current_occupied resp = 90" by simp
  with r(2) have st: "av_status resp = ''high''" by (simp add: tb pt lab)
  have "map_sum id db_alerts
      (get_dashboard failing_primary no_alerts 1 (Some (ward 1 100)) crowded_day) = Inr []"
    by code_simp
  then obtain resp' where
    r': "get_dashboard failing_primary no_alerts 1 (Some (ward 1 100)) crowded_day = Inr resp'"
    and a': "db_alerts resp' = []"
    by (cases "get_dashboard failing_primary no_alerts 1 (Some (ward 1 100)) crowded_day") auto
  have lr: "latest_record crowded_day = Some \<lparr> date = 1, occupied_beds = Some 90 \<rparr>"
    by code_simp
  from risk_thresholds_per_surface
         [where primary = failing_primary and gen = no_alerts and today = 1
            and hospital_row = "Some (ward 1 100)" and rs = crowded_day and resp' = resp']
       r' a'
  have "db_overall_status resp' = ''red''"
    by (auto simp: lr tb pt lab)
  with r' a' r(1) o st labels tiers show ?thesis by auto
qed

text \<open>
  With 130 of 153 beds occupied the utilisation is 84.97 percent, within \<open>[70, 85)\<close>.
  The patient surface rounds it to 85.0 and answers high; the dashboard, without
  alerts, answers yellow.
\<close>

theorem risk_surfaces_disagree_counterexample:
  "get_hospital_availability (Some (ward 1 153)) busy_day =
     Inr \<lparr> av_current_occupied = 130, av_current_available = 23,
           av_utilization_percentage = 85, av_status = ''high'',
           av_last_updated = Some 1 \<rparr>
   \<and> map_sum id db_overall_status
       (get_dashboard failing_primary no_alerts 1 (Some (ward 1 153)) busy_day) = Inr ''yellow''
   \<and> public_tier 130 153 = High \<and> dashboard_tier 130 153 = Medium
   \<and> 70 \<le> raw_percentage 130 153 \<and> raw_percentage 130 153 < 85"
  by code_simp

subsection \<open>Dashboard status\<close>

text \<open>
  Claim C4, as the code has it. The dashboard reads the tier of an alert from its
  severity label: with a non-empty alert list the overall status is red when some alert
  has the severity red, otherwise yellow when some alert has the severity yellow,
  otherwise green. With an empty alert list it is the classification, by the 85 and 70
  thresholds, of the current utilisation, the occupied beds of the latest record
  divided by the total beds and multiplied by 100, unrounded. The status of every
  dashboard response is this function of the alerts that the response carries, which
  are the alerts generated for its forecast.
\<close>

theorem dashboard_status_by_severity:
  "overall_status alerts u =
     (if alerts = [] then status_colour (classify u)
      else if \<exists>a \<in> set alerts. severity a = ''red'' then ''red''
      else if \<exists>a \<in> set alerts. severity a = ''yellow'' then ''yellow''
      else ''green'')
   \<and> (get_dashboard primary generate_alerts today hospital_row all_records = Inr resp \<longrightarrow>
        (\<exists>h latest occ.
           hospital_row = Some h \<and> latest_record all_records = Some latest
           \<and> occupied_beds latest = Some occ \<and> total_beds h \<noteq> 0
           \<and> dashboard_forecast primary generate_alerts h all_records =
               Inr (db_predictions resp, db_alerts resp)
           \<and> db_overall_status resp =
               (if db_alerts resp = [] then
                  status_colour (classify (of_int occ / of_int (total_beds h) * 100))
                else if \<exists>a \<in> set (db_alerts resp). severity a = ''red'' then ''red''
                else if \<exists>a \<in> set (db_alerts resp). severity a = ''yellow'' then ''yellow''
                else ''green'')))"
proof -
  have st: "overall_status al v =
     (if al = [] then status_colour (classify v)
      else if \<exists>a \<in> set al. severity a = ''red'' then ''red''
      else if \<exists>a \<in> set al. severity a = ''yellow'' then ''yellow''
      else ''green'')" for al v
    by (simp add: overall_status_def status_from_utilization_def status_colour_def
        classify_def Let_def list_ex_iff)
  have "\<exists>h latest occ.
           hospital_row = Some h \<and> latest_record all_records = Some latest
           \<and> occupied_beds latest = Some occ \<and> total_beds h \<noteq> 0
           \<and> dashboard_forecast primary generate_alerts h all_records =
               Inr (db_predictions resp, db_alerts resp)
           \<and> db_overall_status resp =
               (if db_alerts resp = [] then
                  status_colour (classify (of_int occ / of_int (total_beds h) * 100))
                else if \<exists>a \<in> set (db_alerts resp). severity a = ''red'' then ''red''
                else if \<exists>a \<in> set (db_alerts resp). severity a = ''yellow'' then ''yellow''
                else ''green'')"
    if g: "get_dashboard primary generate_alerts today hospital_row all_records = Inr resp"
  proof -
    from get_dashboard_status [OF g] obtain h latest occ where
      d: "hospital_row = Some h" "latest_record all_records = Some latest"
        "occupied_beds latest = Some occ" "total_beds h \<noteq> 0"
        "dashboard_forecast primary generate_alerts h all_records =
           Inr (db_predictions resp, db_alerts resp)"
        "db_overall_status resp =
           overall_status (db_alerts resp) (raw_percentage occ (total_beds h))"
      by blast
    from d(6) have "db_overall_status resp =
               (if db_alerts resp = [] then
                  status_colour (classify (of_int occ / of_int (total_beds h) * 100))
                else if \<exists>a \<in> set (db_alerts resp). severity a = ''red'' then ''red''
                else if \<exists>a \<in> set (db_alerts resp). severity a = ''yellow'' then ''yellow''
                else ''green'')"
      by (simp only: st raw_percentage_def)
    with d(1-5) show ?thesis by blast
  qed
  with st [of alerts u] show ?thesis by blast
qed

text \<open>
  A hospital of 100 beds easing to 72 occupied: the forecast raises no alert and the
  status, yellow, comes from the current utilisation. The same hospital at 90 occupied:
  the forecast raises red alerts and the status is red.
\<close>

theorem dashboard_status_by_severity_witness:
  "(\<exists>resp. get_dashboard failing_primary colour_alerts 2 (Some (ward 1 100)) easing = Inr resp
        \<and> db_alerts resp = [] \<and> db_overall_status resp = ''yellow'')
   \<and> (\<exists>resp. get_dashboard failing_primary colour_alerts 1 (Some (ward 1 100)) crowded_day
             = Inr resp
        \<and> db_alerts resp \<noteq> [] \<and> db_overall_status resp = ''red'')
   \<and> overall_status [] 90 = ''red'' \<and> overall_status [] 70 = ''yellow''
   \<and> overall_status [] 50 = ''green''
   \<and> overall_status
        [\<lparr> alert_type = ''capacity_warning'', severity = ''yellow'', alert_date = 1 \<rparr>] 90
      = ''yellow''"
proof -
  have tb: "total_beds (ward 1 100) = 100" by (simp add: ward_def)
  have col: "status_colour (classify 72) = ''yellow''" "status_colour (classify 90) = ''red''"
    "status_colour (classify 70) = ''yellow''" "status_colour (classify 50) = ''green''"
    by (simp_all add: status_colour_def classify_def)
  have quiet: "\<exists>resp. get_dashboard failing_primary colour_alerts 2 (Some (ward 1 100)) easing
        = Inr resp \<and> db_alerts resp = [] \<and> db_overall_status resp = ''yellow''"
  proof -
    have "map_sum id db_alerts
        (get_dashboard failing_primary colour_alerts 2 (Some (ward 1 100)) easing) = Inr []"
      by code_simp
    then obtain resp where
      r: "get_dashboard failing_primary colour_alerts 2 (Some (ward 1 100)) easing = Inr resp"
      and a: "db_alerts resp = []"
      by (cases "get_dashboard failing_primary colour_alerts 2 (Some (ward 1 100)) easing") auto
    have lr: "latest_record easing = Some \<lparr> date = 2, occupied_beds = Some 72 \<rparr>"
      by code_simp
    from dashboard_status_by_severity
           [of "[]" 0 failing_primary colour_alerts 2 "Some (ward 1 100)" easing resp] r a
    have "db_overall_status resp = ''yellow''"
      by (auto simp: lr tb col)
    with r a show ?thesis by blast
  qed
  have crowded: "\<exists>resp. get_dashboard failing_primary colour_alerts 1 (Some (ward 1 100))
        crowded_day = Inr resp \<and> db_alerts resp \<noteq> [] \<and> db_overall_status resp = ''red''"
  proof -
    have "map_sum id (\<lambda>r. (db_alerts r \<noteq> [], list_ex (\<lambda>a. severity a = ''red'') (db_alerts r)))
        (get_dashboard failing_primary colour_alerts 1 (Some (ward 1 100)) crowded_day)
        = Inr (True, True)"
      by code_simp
    then obtain resp where
      r: "get_dashboard failing_primary colour_alerts 1 (Some (ward 1 100)) crowded_day
            = Inr resp"
      and a: "db_alerts resp \<noteq> []" "\<exists>a \<in> set (db_alerts resp). severity a = ''red''"
      by (cases "get_dashboard failing_primary colour_alerts 1 (Some (ward 1 100)) crowded_day")
        (auto simp: list_ex_iff)
    from dashboard_status_by_severity
           [of "[]" 0 failing_primary colour_alerts 1 "Some (ward 1 100)" crowded_day resp] r a
    have "db_overall_status resp = ''red''" by auto
    with r a show ?thesis by blast
  qed
  have plain: "overall_status [] 90 = ''red'' \<and> overall_status [] 70 = ''yellow''
   \<and> overall_status [] 50 = ''green''
   \<and> overall_status
        [\<lparr> alert_type = ''capacity_warning'', severity = ''yellow'', alert_date = 1 \<rparr>] 90
      = ''yellow''"
    using dashboard_status_by_severity [of "[]" 90] dashboard_status_by_severity [of "[]" 70]
      dashboard_status_by_severity [of "[]" 50]
      dashboard_status_by_severity
        [of "[\<lparr> alert_type = ''capacity_warning'', severity = ''yellow'', alert_date = 1 \<rparr>]" 90]
    by (simp add: col)
  from quiet crowded plain show ?thesis by (intro conjI) simp_all
qed

text \<open>
  An alert labelled critical, the label of the specification and of the patient router,
  does not make the status red: alone at 90 percent, and in a dashboard whose seven
  alerts are all critical, the status is green.
\<close>

theorem critical_alert_green_counterexample:
  "overall_status
     [\<lparr> alert_type = ''high_occupancy'', severity = ''critical'', alert_date = 1 \<rparr>] 90
     = ''green''
   \<and> map_sum id (\<lambda>r. (map severity (db_alerts r), db_overall_status r))
       (get_dashboard failing_primary public_label_alerts 1 (Some (ward 1 100)) crowded_day)
     = Inr ([''critical'', ''critical'', ''critical'', ''critical'', ''critical'',
             ''critical'', ''critical''], ''green'')"
  by code_simp

subsection \<open>Score of a primary forecast above the capacity\<close>

text \<open>
  Claim C5, at a hospital of 100 beds, all occupied for a fortnight, for which the
  primary model forecasts 150 beds on each of the seven days. The score is the
  specification's formula, as the claim says, but \<^verbatim>\<open>compare_hospitals\<close> averages
  the primary forecast as it comes (line 325), where the forecast and alert endpoints
  normalise it to 100 first (lines 101 and 445): the average is 150 and the score is
  \<open>-25\<close>, below the range that the claim and the comment above line 337 give. Full
  occupancy now and over the horizon scores 0, no occupancy 100.
\<close>

theorem comparison_score_out_of_range:
  "compare_hospitals surge_primary [(ward 1 100, full_fortnight)] =
     Inr [\<lparr> hc_hospital_id = 1, hc_current_occupancy = 100, hc_current_available = 0,
            hc_utilization_percentage = 100, avg_predicted_occupancy_7_days = 150,
            hc_recommendation_score = - 25, hc_risk_level = ''high'' \<rparr>]
   \<and> recommendation_score 100 100 150 = Inr (spec_score 100 100 150)
   \<and> spec_score 100 100 150 = - 25
   \<and> clamp_occupancy_public (Some 150) 100 = 100
   \<and> recommendation_score 100 100 100 = Inr 0
   \<and> recommendation_score 100 0 0 = Inr 100"
  by code_simp

end
